theory Spec2Isabelle
  imports Main "HOL-Library.Word"
begin

unbundle bit_operations_syntax

section \<open>Data model of the Intel 8080 core (i8080.c)\<close>

type_synonym uns8 = "8 word"
type_synonym uns16 = "16 word"
type_synonym uns32 = "32 word"

text \<open>
  The union \<open>reg_pair\<close> overlays the 16-bit word \<open>w\<close> with the bytes \<open>b.l\<close> (low) and
  \<open>b.h\<close> (high), as the little-endian hosts of this core lay it out. The model keeps the
  word and reads or writes the two bytes through it.
\<close>

type_synonym reg_pair = uns16

definition b_l :: "reg_pair \<Rightarrow> uns8" where
  "b_l p = ucast p"

definition b_h :: "reg_pair \<Rightarrow> uns8" where
  "b_h p = ucast (drop_bit 8 p)"

definition set_b_l :: "uns8 \<Rightarrow> reg_pair \<Rightarrow> reg_pair" where
  "set_b_l v p = (p AND 0xFF00) OR ucast v"

definition set_b_h :: "uns8 \<Rightarrow> reg_pair \<Rightarrow> reg_pair" where
  "set_b_h v p = (p AND 0x00FF) OR push_bit 8 (ucast v)"

record flag_reg =
  carry_flag :: uns8
  unused1 :: uns8
  parity_flag :: uns8
  unused3 :: uns8
  half_carry_flag :: uns8
  unused5 :: uns8
  zero_flag :: uns8
  sign_flag :: uns8

record i8080 =
  f :: flag_reg
  af :: reg_pair
  bc :: reg_pair
  de :: reg_pair
  hl :: reg_pair
  sp :: reg_pair
  pc :: reg_pair
  iff :: uns16
  last_pc :: uns16

text \<open>
  The whole machine: the file-scope \<open>cpu\<close>, the global byte \<open>M\<close> that slot 6 of the
  table \<open>REG\<close> points to, and the host behind the HAL (its memory, its input ports, and
  the log of what the core sent to output ports and to the interrupt-latch callback).
  The scratch variables \<open>work32\<close>, \<open>work16\<close>, \<open>work8\<close>, \<open>index\<close>, \<open>carry\<close>
  and \<open>add\<close> are written before they are read in every instruction, so they are
  local bindings here.
\<close>

record machine =
  cpu :: i8080
  M :: uns8
  memory :: "uns16 \<Rightarrow> uns8"
  io_in :: "uns8 \<Rightarrow> uns8"
  io_out :: "(uns8 \<times> uns8) list"
  iff_out :: "uns16 list"

subsection \<open>The register macros\<close>

definition AF :: "machine \<Rightarrow> uns16" where "AF s = af (cpu s)"
definition BC :: "machine \<Rightarrow> uns16" where "BC s = bc (cpu s)"
definition DE :: "machine \<Rightarrow> uns16" where "DE s = de (cpu s)"
definition HL :: "machine \<Rightarrow> uns16" where "HL s = hl (cpu s)"
definition SP :: "machine \<Rightarrow> uns16" where "SP s = sp (cpu s)"
definition PC :: "machine \<Rightarrow> uns16" where "PC s = pc (cpu s)"
definition IFF :: "machine \<Rightarrow> uns16" where "IFF s = iff (cpu s)"

definition set_AF :: "uns16 \<Rightarrow> machine \<Rightarrow> machine" where
  "set_AF v = cpu_update (af_update (\<lambda>_. v))"
definition set_BC :: "uns16 \<Rightarrow> machine \<Rightarrow> machine" where
  "set_BC v = cpu_update (bc_update (\<lambda>_. v))"
definition set_DE :: "uns16 \<Rightarrow> machine \<Rightarrow> machine" where
  "set_DE v = cpu_update (de_update (\<lambda>_. v))"
definition set_HL :: "uns16 \<Rightarrow> machine \<Rightarrow> machine" where
  "set_HL v = cpu_update (hl_update (\<lambda>_. v))"
definition set_SP :: "uns16 \<Rightarrow> machine \<Rightarrow> machine" where
  "set_SP v = cpu_update (sp_update (\<lambda>_. v))"
definition set_PC :: "uns16 \<Rightarrow> machine \<Rightarrow> machine" where
  "set_PC v = cpu_update (pc_update (\<lambda>_. v))"
definition set_IFF :: "uns16 \<Rightarrow> machine \<Rightarrow> machine" where
  "set_IFF v = cpu_update (iff_update (\<lambda>_. v))"

text \<open>
  The byte macros \<open>A\<close>, \<open>F\<close>, \<open>B\<close>, \<open>C\<close>, \<open>D\<close>, \<open>E\<close>, \<open>H\<close>, \<open>L\<close> carry the suffix
  \<open>_reg\<close> here, so that single letters stay free for variables.
\<close>

definition A_reg :: "machine \<Rightarrow> uns8" where "A_reg s = b_h (af (cpu s))"
definition F_reg :: "machine \<Rightarrow> uns8" where "F_reg s = b_l (af (cpu s))"
definition B_reg :: "machine \<Rightarrow> uns8" where "B_reg s = b_h (bc (cpu s))"
definition C_reg :: "machine \<Rightarrow> uns8" where "C_reg s = b_l (bc (cpu s))"
definition D_reg :: "machine \<Rightarrow> uns8" where "D_reg s = b_h (de (cpu s))"
definition E_reg :: "machine \<Rightarrow> uns8" where "E_reg s = b_l (de (cpu s))"
definition H_reg :: "machine \<Rightarrow> uns8" where "H_reg s = b_h (hl (cpu s))"
definition L_reg :: "machine \<Rightarrow> uns8" where "L_reg s = b_l (hl (cpu s))"

definition set_A :: "uns8 \<Rightarrow> machine \<Rightarrow> machine" where
  "set_A v = cpu_update (af_update (set_b_h v))"
definition set_F :: "uns8 \<Rightarrow> machine \<Rightarrow> machine" where
  "set_F v = cpu_update (af_update (set_b_l v))"
definition set_B :: "uns8 \<Rightarrow> machine \<Rightarrow> machine" where
  "set_B v = cpu_update (bc_update (set_b_h v))"
definition set_C :: "uns8 \<Rightarrow> machine \<Rightarrow> machine" where
  "set_C v = cpu_update (bc_update (set_b_l v))"
definition set_D :: "uns8 \<Rightarrow> machine \<Rightarrow> machine" where
  "set_D v = cpu_update (de_update (set_b_h v))"
definition set_E :: "uns8 \<Rightarrow> machine \<Rightarrow> machine" where
  "set_E v = cpu_update (de_update (set_b_l v))"
definition set_H :: "uns8 \<Rightarrow> machine \<Rightarrow> machine" where
  "set_H v = cpu_update (hl_update (set_b_h v))"
definition set_L :: "uns8 \<Rightarrow> machine \<Rightarrow> machine" where
  "set_L v = cpu_update (hl_update (set_b_l v))"
definition set_M :: "uns8 \<Rightarrow> machine \<Rightarrow> machine" where
  "set_M v = M_update (\<lambda>_. v)"

subsection \<open>The flag macros\<close>

definition C_FLAG :: "machine \<Rightarrow> uns8" where "C_FLAG s = carry_flag (f (cpu s))"
definition P_FLAG :: "machine \<Rightarrow> uns8" where "P_FLAG s = parity_flag (f (cpu s))"
definition H_FLAG :: "machine \<Rightarrow> uns8" where "H_FLAG s = half_carry_flag (f (cpu s))"
definition Z_FLAG :: "machine \<Rightarrow> uns8" where "Z_FLAG s = zero_flag (f (cpu s))"
definition S_FLAG :: "machine \<Rightarrow> uns8" where "S_FLAG s = sign_flag (f (cpu s))"
definition UN1_FLAG :: "machine \<Rightarrow> uns8" where "UN1_FLAG s = unused1 (f (cpu s))"
definition UN3_FLAG :: "machine \<Rightarrow> uns8" where "UN3_FLAG s = unused3 (f (cpu s))"
definition UN5_FLAG :: "machine \<Rightarrow> uns8" where "UN5_FLAG s = unused5 (f (cpu s))"

definition set_C_FLAG :: "uns8 \<Rightarrow> machine \<Rightarrow> machine" where
  "set_C_FLAG v = cpu_update (f_update (carry_flag_update (\<lambda>_. v)))"
definition set_P_FLAG :: "uns8 \<Rightarrow> machine \<Rightarrow> machine" where
  "set_P_FLAG v = cpu_update (f_update (parity_flag_update (\<lambda>_. v)))"
definition set_H_FLAG :: "uns8 \<Rightarrow> machine \<Rightarrow> machine" where
  "set_H_FLAG v = cpu_update (f_update (half_carry_flag_update (\<lambda>_. v)))"
definition set_Z_FLAG :: "uns8 \<Rightarrow> machine \<Rightarrow> machine" where
  "set_Z_FLAG v = cpu_update (f_update (zero_flag_update (\<lambda>_. v)))"
definition set_S_FLAG :: "uns8 \<Rightarrow> machine \<Rightarrow> machine" where
  "set_S_FLAG v = cpu_update (f_update (sign_flag_update (\<lambda>_. v)))"
definition set_UN1_FLAG :: "uns8 \<Rightarrow> machine \<Rightarrow> machine" where
  "set_UN1_FLAG v = cpu_update (f_update (unused1_update (\<lambda>_. v)))"
definition set_UN3_FLAG :: "uns8 \<Rightarrow> machine \<Rightarrow> machine" where
  "set_UN3_FLAG v = cpu_update (f_update (unused3_update (\<lambda>_. v)))"
definition set_UN5_FLAG :: "uns8 \<Rightarrow> machine \<Rightarrow> machine" where
  "set_UN5_FLAG v = cpu_update (f_update (unused5_update (\<lambda>_. v)))"

definition F_CARRY :: uns8 where "F_CARRY = 0x01"
definition F_UN1 :: uns8 where "F_UN1 = 0x02"
definition F_PARITY :: uns8 where "F_PARITY = 0x04"
definition F_UN3 :: uns8 where "F_UN3 = 0x08"
definition F_HCARRY :: uns8 where "F_HCARRY = 0x10"
definition F_UN5 :: uns8 where "F_UN5 = 0x20"
definition F_ZERO :: uns8 where "F_ZERO = 0x40"
definition F_NEG :: uns8 where "F_NEG = 0x80"

subsection \<open>The host abstraction layer\<close>

text \<open>
  Modelled from the spec: \<open>i8080_hal_memory_read_byte\<close> is declared in i8080_hal.h and
  implemented by the host, neither of which is among the sources. The spec gives
  \<open>mem_read_byte(addr) -> u8\<close> over a flat 16-bit address space.
\<close>

definition RD_BYTE :: "uns16 \<Rightarrow> machine \<Rightarrow> uns8" where
  "RD_BYTE addr s = memory s addr"

text \<open>
  Modelled from the spec: \<open>i8080_hal_memory_read_word\<close> (i8080_hal.h, host code) is
  missing. The spec gives a little-endian 16-bit read, low byte at \<open>addr\<close>, high byte at
  \<open>addr+1\<close>, wrapping from 0xFFFF to 0x0000.
\<close>

definition RD_WORD :: "uns16 \<Rightarrow> machine \<Rightarrow> uns16" where
  "RD_WORD addr s = ucast (memory s addr) OR push_bit 8 (ucast (memory s (addr + 1)))"

text \<open>
  Modelled from the spec: \<open>i8080_hal_memory_write_byte\<close> (i8080_hal.h, host code) is
  missing. The spec gives \<open>mem_write_byte(addr, u8)\<close>.
\<close>

definition WR_BYTE :: "uns16 \<Rightarrow> uns8 \<Rightarrow> machine \<Rightarrow> machine" where
  "WR_BYTE addr v s = s\<lparr>memory := (memory s)(addr := v)\<rparr>"

text \<open>
  Modelled from the spec: \<open>i8080_hal_memory_write_word\<close> (i8080_hal.h, host code) is
  missing. The spec gives a little-endian 16-bit write with the same wrap-around.
\<close>

definition WR_WORD :: "uns16 \<Rightarrow> uns16 \<Rightarrow> machine \<Rightarrow> machine" where
  "WR_WORD addr v s =
     s\<lparr>memory := (memory s)(addr := ucast v, addr + 1 := ucast (drop_bit 8 v))\<rparr>"

text \<open>
  Modelled from the spec: \<open>i8080_hal_io_input\<close> (i8080_hal.h, host code) is missing. The
  spec gives \<open>io_input(port u8) -> u8\<close>; the host's answer is the field \<open>io_in\<close>.
\<close>

definition i8080_hal_io_input :: "uns8 \<Rightarrow> machine \<Rightarrow> uns8" where
  "i8080_hal_io_input port s = io_in s port"

text \<open>
  Modelled from the spec: \<open>i8080_hal_io_output\<close> (i8080_hal.h, host code) is missing. The
  spec gives \<open>io_output(port u8, u8)\<close>; the model records the pair.
\<close>

definition i8080_hal_io_output :: "uns8 \<Rightarrow> uns8 \<Rightarrow> machine \<Rightarrow> machine" where
  "i8080_hal_io_output port v s = s\<lparr>io_out := io_out s @ [(port, v)]\<rparr>"

text \<open>
  Modelled from the spec: \<open>i8080_hal_iff\<close> (i8080_hal.h, host code) is missing. The spec
  gives a notification after every DI/EI; the model records the value passed.
\<close>

definition i8080_hal_iff :: "uns16 \<Rightarrow> machine \<Rightarrow> machine" where
  "i8080_hal_iff v s = s\<lparr>iff_out := iff_out s @ [v]\<rparr>"

section \<open>ALU primitives\<close>

definition i8080_getParity :: "int \<Rightarrow> int" where
  "i8080_getParity val0 =
     (let val = val0 XOR drop_bit 4 val0;
          val = val AND 0xf
      in of_bool (drop_bit (nat val) (0x6996 :: int) AND 1 = 0))"

definition PARITY :: "uns8 \<Rightarrow> uns8" where
  "PARITY reg = word_of_int (i8080_getParity (uint reg))"

definition half_carry_table :: "int list" where
  "half_carry_table = [0, 0, 1, 0, 1, 0, 1, 1]"

definition sub_half_carry_table :: "int list" where
  "sub_half_carry_table = [0, 1, 1, 1, 0, 0, 0, 1]"

definition INR :: "uns8 \<Rightarrow> machine \<Rightarrow> uns8 \<times> machine" where
  "INR reg0 s =
     (let reg = reg0 + 1;
          s = set_S_FLAG (of_bool (reg AND 0x80 \<noteq> 0)) s;
          s = set_Z_FLAG (of_bool (reg = 0)) s;
          s = set_H_FLAG (of_bool (reg AND 0x0f = 0)) s;
          s = set_P_FLAG (PARITY reg) s
      in (reg, s))"

definition DCR :: "uns8 \<Rightarrow> machine \<Rightarrow> uns8 \<times> machine" where
  "DCR reg0 s =
     (let reg = reg0 - 1;
          s = set_S_FLAG (of_bool (reg AND 0x80 \<noteq> 0)) s;
          s = set_Z_FLAG (of_bool (reg = 0)) s;
          s = set_H_FLAG (of_bool (\<not> (reg AND 0x0f = 0x0f))) s;
          s = set_P_FLAG (PARITY reg) s
      in (reg, s))"

text \<open>
  \<open>index\<close> is a C \<open>int\<close> built from promoted bytes; its value stays below 128, so it is
  an \<open>int\<close> here. \<open>work16\<close> is an \<open>uns16\<close>: the subtraction wraps modulo 65536.
\<close>

definition alu_index :: "uns8 \<Rightarrow> uns8 \<Rightarrow> uns16 \<Rightarrow> int" where
  "alu_index a val work16 =
     drop_bit 1 (uint (a AND 0x88)) OR drop_bit 2 (uint (val AND 0x88))
       OR drop_bit 3 (uint (work16 AND 0x88))"

definition ADD :: "uns8 \<Rightarrow> machine \<Rightarrow> machine" where
  "ADD val s =
     (let work16 = (ucast (A_reg s) :: uns16) + ucast val;
          index = alu_index (A_reg s) val work16;
          s = set_A (ucast (work16 AND 0xff)) s;
          s = set_S_FLAG (of_bool (A_reg s AND 0x80 \<noteq> 0)) s;
          s = set_Z_FLAG (of_bool (A_reg s = 0)) s;
          s = set_H_FLAG (word_of_int (half_carry_table ! nat (index AND 0x7))) s;
          s = set_P_FLAG (PARITY (A_reg s)) s;
          s = set_C_FLAG (of_bool (work16 AND 0x0100 \<noteq> 0)) s
      in s)"

definition ADC :: "uns8 \<Rightarrow> machine \<Rightarrow> machine" where
  "ADC val s =
     (let work16 = (ucast (A_reg s) :: uns16) + ucast val + ucast (C_FLAG s);
          index = alu_index (A_reg s) val work16;
          s = set_A (ucast (work16 AND 0xff)) s;
          s = set_S_FLAG (of_bool (A_reg s AND 0x80 \<noteq> 0)) s;
          s = set_Z_FLAG (of_bool (A_reg s = 0)) s;
          s = set_H_FLAG (word_of_int (half_carry_table ! nat (index AND 0x7))) s;
          s = set_P_FLAG (PARITY (A_reg s)) s;
          s = set_C_FLAG (of_bool (work16 AND 0x0100 \<noteq> 0)) s
      in s)"

definition SUB :: "uns8 \<Rightarrow> machine \<Rightarrow> machine" where
  "SUB val s =
     (let work16 = (ucast (A_reg s) :: uns16) - ucast val;
          index = alu_index (A_reg s) val work16;
          s = set_A (ucast (work16 AND 0xff)) s;
          s = set_S_FLAG (of_bool (A_reg s AND 0x80 \<noteq> 0)) s;
          s = set_Z_FLAG (of_bool (A_reg s = 0)) s;
          s = set_H_FLAG (of_bool (sub_half_carry_table ! nat (index AND 0x7) = 0)) s;
          s = set_P_FLAG (PARITY (A_reg s)) s;
          s = set_C_FLAG (of_bool (work16 AND 0x0100 \<noteq> 0)) s
      in s)"

definition SBB :: "uns8 \<Rightarrow> machine \<Rightarrow> machine" where
  "SBB val s =
     (let work16 = (ucast (A_reg s) :: uns16) - ucast val - ucast (C_FLAG s);
          index = alu_index (A_reg s) val work16;
          s = set_A (ucast (work16 AND 0xff)) s;
          s = set_S_FLAG (of_bool (A_reg s AND 0x80 \<noteq> 0)) s;
          s = set_Z_FLAG (of_bool (A_reg s = 0)) s;
          s = set_H_FLAG (of_bool (sub_half_carry_table ! nat (index AND 0x7) = 0)) s;
          s = set_P_FLAG (PARITY (A_reg s)) s;
          s = set_C_FLAG (of_bool (work16 AND 0x0100 \<noteq> 0)) s
      in s)"

definition CMP :: "uns8 \<Rightarrow> machine \<Rightarrow> machine" where
  "CMP val s =
     (let work16 = (ucast (A_reg s) :: uns16) - ucast val;
          index = alu_index (A_reg s) val work16;
          s = set_S_FLAG (of_bool (work16 AND 0x80 \<noteq> 0)) s;
          s = set_Z_FLAG (of_bool (work16 AND 0xff = 0)) s;
          s = set_H_FLAG (of_bool (sub_half_carry_table ! nat (index AND 0x7) = 0)) s;
          s = set_C_FLAG (of_bool (work16 AND 0x0100 \<noteq> 0)) s;
          s = set_P_FLAG (PARITY (ucast (work16 AND 0xff))) s
      in s)"

definition ANA :: "uns8 \<Rightarrow> machine \<Rightarrow> machine" where
  "ANA val s =
     (let s = set_H_FLAG (of_bool ((A_reg s OR val) AND 0x08 \<noteq> 0)) s;
          s = set_A (A_reg s AND val) s;
          s = set_S_FLAG (of_bool (A_reg s AND 0x80 \<noteq> 0)) s;
          s = set_Z_FLAG (of_bool (A_reg s = 0)) s;
          s = set_P_FLAG (PARITY (A_reg s)) s;
          s = set_C_FLAG 0 s
      in s)"

definition XRA :: "uns8 \<Rightarrow> machine \<Rightarrow> machine" where
  "XRA val s =
     (let s = set_A (A_reg s XOR val) s;
          s = set_S_FLAG (of_bool (A_reg s AND 0x80 \<noteq> 0)) s;
          s = set_Z_FLAG (of_bool (A_reg s = 0)) s;
          s = set_H_FLAG 0 s;
          s = set_P_FLAG (PARITY (A_reg s)) s;
          s = set_C_FLAG 0 s
      in s)"

definition ORA :: "uns8 \<Rightarrow> machine \<Rightarrow> machine" where
  "ORA val s =
     (let s = set_A (A_reg s OR val) s;
          s = set_S_FLAG (of_bool (A_reg s AND 0x80 \<noteq> 0)) s;
          s = set_Z_FLAG (of_bool (A_reg s = 0)) s;
          s = set_H_FLAG 0 s;
          s = set_P_FLAG (PARITY (A_reg s)) s;
          s = set_C_FLAG 0 s
      in s)"

definition DAD :: "uns16 \<Rightarrow> machine \<Rightarrow> machine" where
  "DAD reg s =
     (let work32 = (ucast (HL s) :: uns32) + ucast reg;
          s = set_HL (ucast (work32 AND 0xffff)) s;
          s = set_C_FLAG (of_bool (work32 AND 0x10000 \<noteq> 0)) s
      in s)"

subsection \<open>Stack and control-flow macros\<close>

text \<open>
  \<open>POP\<close> and \<open>PUSH\<close> are macros: the argument of \<open>PUSH\<close> is evaluated after \<open>SP\<close> has
  been decremented, and \<open>POP\<close> assigns its target before it increments \<open>SP\<close>. So
  \<open>PUSH\<close> takes a reader of the state and \<open>POP\<close> a writer.
\<close>

definition POP :: "(uns16 \<Rightarrow> machine \<Rightarrow> machine) \<Rightarrow> machine \<Rightarrow> machine" where
  "POP set_reg s =
     (let s = set_reg (RD_WORD (SP s) s) s
      in set_SP (SP s + 2) s)"

definition PUSH :: "(machine \<Rightarrow> uns16) \<Rightarrow> machine \<Rightarrow> machine" where
  "PUSH reg s =
     (let s = set_SP (SP s - 2) s
      in WR_WORD (SP s) (reg s) s)"

definition CALL :: "machine \<Rightarrow> machine" where
  "CALL s =
     (let s = PUSH (\<lambda>s. PC s + 2) s
      in set_PC (RD_WORD (PC s) s) s)"

definition RST :: "uns16 \<Rightarrow> machine \<Rightarrow> machine" where
  "RST addr s =
     (let s = PUSH PC s
      in set_PC addr s)"

subsection \<open>Opcode fields and the register tables\<close>

definition DEST :: "int \<Rightarrow> int" where "DEST x = drop_bit 3 x AND 7"
definition SOURCE :: "int \<Rightarrow> int" where "SOURCE x = x AND 7"
definition CONDITION :: "int \<Rightarrow> int" where "CONDITION x = drop_bit 3 x AND 7"
definition VECTOR :: "int \<Rightarrow> int" where "VECTOR x = drop_bit 3 x AND 7"
definition RP :: "int \<Rightarrow> int" where "RP x = drop_bit 4 x AND 3"

text \<open>
  \<open>REG[] = { &B, &C, &D, &E, &H, &L, &M, &A }\<close> and \<open>PAIR[] = { &BC, &DE, &HL, &SP }\<close>:
  reading and writing through the pointer in slot \<open>i\<close>. The index is always the result of
  a mask with 7 (or 3), so the last branch is slot 7 (or 3).
\<close>

definition REG_read :: "int \<Rightarrow> machine \<Rightarrow> uns8" where
  "REG_read i s =
     (if i = 0 then B_reg s else if i = 1 then C_reg s
      else if i = 2 then D_reg s else if i = 3 then E_reg s
      else if i = 4 then H_reg s else if i = 5 then L_reg s
      else if i = 6 then M s else A_reg s)"

definition REG_write :: "int \<Rightarrow> uns8 \<Rightarrow> machine \<Rightarrow> machine" where
  "REG_write i v s =
     (if i = 0 then set_B v s else if i = 1 then set_C v s
      else if i = 2 then set_D v s else if i = 3 then set_E v s
      else if i = 4 then set_H v s else if i = 5 then set_L v s
      else if i = 6 then set_M v s else set_A v s)"

definition PAIR_read :: "int \<Rightarrow> machine \<Rightarrow> uns16" where
  "PAIR_read i s =
     (if i = 0 then BC s else if i = 1 then DE s
      else if i = 2 then HL s else SP s)"

definition PAIR_write :: "int \<Rightarrow> uns16 \<Rightarrow> machine \<Rightarrow> machine" where
  "PAIR_write i v s =
     (if i = 0 then set_BC v s else if i = 1 then set_DE v s
      else if i = 2 then set_HL v s else set_SP v s)"

section \<open>The core's interface\<close>

definition i8080_init :: "machine \<Rightarrow> machine" where
  "i8080_init s =
     (let s = set_C_FLAG 0 s;
          s = set_S_FLAG 0 s;
          s = set_Z_FLAG 0 s;
          s = set_H_FLAG 0 s;
          s = set_P_FLAG 0 s;
          s = set_UN1_FLAG 1 s;
          s = set_UN3_FLAG 0 s;
          s = set_UN5_FLAG 0 s
      in set_PC 0xF800 s)"

definition i8080_store_flags :: "machine \<Rightarrow> machine" where
  "i8080_store_flags s =
     (let s = (if S_FLAG s \<noteq> 0 then set_F (F_reg s OR F_NEG) s
               else set_F (F_reg s AND NOT F_NEG) s);
          s = (if Z_FLAG s \<noteq> 0 then set_F (F_reg s OR F_ZERO) s
               else set_F (F_reg s AND NOT F_ZERO) s);
          s = (if H_FLAG s \<noteq> 0 then set_F (F_reg s OR F_HCARRY) s
               else set_F (F_reg s AND NOT F_HCARRY) s);
          s = (if P_FLAG s \<noteq> 0 then set_F (F_reg s OR F_PARITY) s
               else set_F (F_reg s AND NOT F_PARITY) s);
          s = (if C_FLAG s \<noteq> 0 then set_F (F_reg s OR F_CARRY) s
               else set_F (F_reg s AND NOT F_CARRY) s);
          s = set_F (F_reg s OR F_UN1) s;
          s = set_F (F_reg s AND NOT F_UN3) s;
          s = set_F (F_reg s AND NOT F_UN5) s
      in s)"

definition i8080_retrieve_flags :: "machine \<Rightarrow> machine" where
  "i8080_retrieve_flags s =
     (let s = set_S_FLAG (if F_reg s AND F_NEG \<noteq> 0 then 1 else 0) s;
          s = set_Z_FLAG (if F_reg s AND F_ZERO \<noteq> 0 then 1 else 0) s;
          s = set_H_FLAG (if F_reg s AND F_HCARRY \<noteq> 0 then 1 else 0) s;
          s = set_P_FLAG (if F_reg s AND F_PARITY \<noteq> 0 then 1 else 0) s;
          s = set_C_FLAG (if F_reg s AND F_CARRY \<noteq> 0 then 1 else 0) s
      in s)"

definition i8080_checkCondition :: "int \<Rightarrow> machine \<Rightarrow> uns8" where
  "i8080_checkCondition c s =
     (if c = 0 then of_bool (Z_FLAG s = 0)
      else if c = 1 then Z_FLAG s
      else if c = 2 then of_bool (C_FLAG s = 0)
      else if c = 3 then C_FLAG s
      else if c = 4 then of_bool (P_FLAG s = 0)
      else if c = 5 then P_FLAG s
      else if c = 6 then of_bool (S_FLAG s = 0)
      else if c = 7 then S_FLAG s
      else 0)"

section \<open>The decoder\<close>

text \<open>
  The first \<open>switch\<close> of \<open>i8080_execute\<close>: the exact-match table. It yields the value of
  \<open>cpu_cycles\<close> after the switch, which is still 0 when no case matched.
\<close>

definition execute_exact :: "int \<Rightarrow> machine \<Rightarrow> int \<times> machine" where
  "execute_exact opcode s =
     (if opcode = 0x00 \<or> opcode = 0x08 \<or> opcode = 0x10 \<or> opcode = 0x18 \<or> opcode = 0x20
         \<or> opcode = 0x28 \<or> opcode = 0x30 \<or> opcode = 0x38 then
        (4, s)
      else if opcode = 0x07 then
        (let s = set_C_FLAG (of_bool (A_reg s AND 0x80 \<noteq> 0)) s
         in (4, set_A (push_bit 1 (A_reg s) OR C_FLAG s) s))
      else if opcode = 0x0F then
        (let s = set_C_FLAG (A_reg s AND 0x01) s
         in (4, set_A (drop_bit 1 (A_reg s) OR push_bit 7 (C_FLAG s)) s))
      else if opcode = 0x17 then
        (let work8 = C_FLAG s;
             s = set_C_FLAG (of_bool (A_reg s AND 0x80 \<noteq> 0)) s
         in (4, set_A (push_bit 1 (A_reg s) OR work8) s))
      else if opcode = 0x1F then
        (let work8 = C_FLAG s;
             s = set_C_FLAG (A_reg s AND 0x01) s
         in (4, set_A (drop_bit 1 (A_reg s) OR push_bit 7 work8) s))
      else if opcode = 0x22 then
        (let s = WR_WORD (RD_WORD (PC s) s) (HL s) s
         in (16, set_PC (PC s + 2) s))
      else if opcode = 0x27 then
        (let carry = C_FLAG s;
             add = 0;
             add = (if H_FLAG s \<noteq> 0 \<or> A_reg s AND 0x0f > 9 then 0x06 else add);
             (add, carry) =
               (if C_FLAG s \<noteq> 0 \<or> drop_bit 4 (A_reg s) > 9
                   \<or> (drop_bit 4 (A_reg s) \<ge> 9 \<and> A_reg s AND 0x0f > 9)
                then (add OR 0x60, 1) else (add, carry));
             s = ADD add s;
             s = set_P_FLAG (PARITY (A_reg s)) s
         in (4, set_C_FLAG carry s))
      else if opcode = 0x2A then
        (let s = set_HL (RD_WORD (RD_WORD (PC s) s) s) s
         in (16, set_PC (PC s + 2) s))
      else if opcode = 0x2F then
        (4, set_A (A_reg s XOR 0xff) s)
      else if opcode = 0x32 then
        (let s = WR_BYTE (RD_WORD (PC s) s) (A_reg s) s
         in (13, set_PC (PC s + 2) s))
      else if opcode = 0x34 then
        (let work8 = RD_BYTE (HL s) s;
             (work8, s) = INR work8 s
         in (10, WR_BYTE (HL s) work8 s))
      else if opcode = 0x35 then
        (let work8 = RD_BYTE (HL s) s;
             (work8, s) = DCR work8 s
         in (10, WR_BYTE (HL s) work8 s))
      else if opcode = 0x36 then
        (let v = RD_BYTE (PC s) s;
             s = set_PC (PC s + 1) s
         in (10, WR_BYTE (HL s) v s))
      else if opcode = 0x37 then
        (4, set_C_FLAG 1 s)
      else if opcode = 0x3A then
        (let s = set_A (RD_BYTE (RD_WORD (PC s) s) s) s
         in (13, set_PC (PC s + 2) s))
      else if opcode = 0x3F then
        (4, set_C_FLAG (of_bool (C_FLAG s = 0)) s)
      else if opcode = 0x76 then
        (4, set_PC (PC s - 1) s)
      else if opcode = 0x86 then
        (let work8 = RD_BYTE (HL s) s in (7, ADD work8 s))
      else if opcode = 0x8E then
        (let work8 = RD_BYTE (HL s) s in (7, ADC work8 s))
      else if opcode = 0x96 then
        (let work8 = RD_BYTE (HL s) s in (7, SUB work8 s))
      else if opcode = 0x9E then
        (let work8 = RD_BYTE (HL s) s in (7, SBB work8 s))
      else if opcode = 0xA6 then
        (let work8 = RD_BYTE (HL s) s in (7, ANA work8 s))
      else if opcode = 0xAE then
        (let work8 = RD_BYTE (HL s) s in (7, XRA work8 s))
      else if opcode = 0xB6 then
        (let work8 = RD_BYTE (HL s) s in (7, ORA work8 s))
      else if opcode = 0xBE then
        (let work8 = RD_BYTE (HL s) s in (7, CMP work8 s))
      else if opcode = 0xC3 \<or> opcode = 0xCB then
        (10, set_PC (RD_WORD (PC s) s) s)
      else if opcode = 0xC6 then
        (let work8 = RD_BYTE (PC s) s;
             s = set_PC (PC s + 1) s
         in (7, ADD work8 s))
      else if opcode = 0xC9 \<or> opcode = 0xD9 then
        (10, POP set_PC s)
      else if opcode = 0xCD \<or> opcode = 0xDD \<or> opcode = 0xED \<or> opcode = 0xFD then
        (17, CALL s)
      else if opcode = 0xCE then
        (let work8 = RD_BYTE (PC s) s;
             s = set_PC (PC s + 1) s
         in (7, ADC work8 s))
      else if opcode = 0xD3 then
        (let port = RD_BYTE (PC s) s;
             s = set_PC (PC s + 1) s
         in (10, i8080_hal_io_output port (A_reg s) s))
      else if opcode = 0xD6 then
        (let work8 = RD_BYTE (PC s) s;
             s = set_PC (PC s + 1) s
         in (7, SUB work8 s))
      else if opcode = 0xDB then
        (let port = RD_BYTE (PC s) s;
             s = set_PC (PC s + 1) s
         in (10, set_A (i8080_hal_io_input port s) s))
      else if opcode = 0xDE then
        (let work8 = RD_BYTE (PC s) s;
             s = set_PC (PC s + 1) s
         in (7, SBB work8 s))
      else if opcode = 0xE3 then
        (let work16 = RD_WORD (SP s) s;
             s = WR_WORD (SP s) (HL s) s
         in (18, set_HL work16 s))
      else if opcode = 0xE6 then
        (let work8 = RD_BYTE (PC s) s;
             s = set_PC (PC s + 1) s
         in (7, ANA work8 s))
      else if opcode = 0xE9 then
        (5, set_PC (HL s) s)
      else if opcode = 0xEB then
        (let work16 = DE s;
             s = set_DE (HL s) s
         in (4, set_HL work16 s))
      else if opcode = 0xEE then
        (let work8 = RD_BYTE (PC s) s;
             s = set_PC (PC s + 1) s
         in (7, XRA work8 s))
      else if opcode = 0xF1 then
        (let s = POP set_AF s
         in (10, i8080_retrieve_flags s))
      else if opcode = 0xF3 then
        (let s = set_IFF 0 s
         in (4, i8080_hal_iff (IFF s) s))
      else if opcode = 0xF5 then
        (let s = i8080_store_flags s
         in (11, PUSH AF s))
      else if opcode = 0xF6 then
        (let work8 = RD_BYTE (PC s) s;
             s = set_PC (PC s + 1) s
         in (7, ORA work8 s))
      else if opcode = 0xF9 then
        (5, set_SP (HL s) s)
      else if opcode = 0xFB then
        (let s = set_IFF 1 s
         in (4, i8080_hal_iff (IFF s) s))
      else if opcode = 0xFE then
        (let work8 = RD_BYTE (PC s) s;
             s = set_PC (PC s + 1) s
         in (7, CMP work8 s))
      else (0, s))"

text \<open>
  The three masked \<open>switch\<close> statements. Each case returns; \<open>None\<close> is the fall-through
  to the code after the switch.
\<close>

definition execute_alu :: "int \<Rightarrow> machine \<Rightarrow> (int \<times> machine) option" where
  "execute_alu opcode s =
     (let sel = opcode AND 0xF8 in
      if sel = 0xB8 then Some (4, CMP (REG_read (SOURCE opcode) s) s)
      else if sel = 0xB0 then Some (4, ORA (REG_read (SOURCE opcode) s) s)
      else if sel = 0xA8 then Some (4, XRA (REG_read (SOURCE opcode) s) s)
      else if sel = 0xA0 then Some (4, ANA (REG_read (SOURCE opcode) s) s)
      else if sel = 0x98 then Some (4, SBB (REG_read (SOURCE opcode) s) s)
      else if sel = 0x90 then Some (4, SUB (REG_read (SOURCE opcode) s) s)
      else if sel = 0x88 then Some (4, ADC (REG_read (SOURCE opcode) s) s)
      else if sel = 0x80 then Some (4, ADD (REG_read (SOURCE opcode) s) s)
      else None)"

definition execute_cond :: "int \<Rightarrow> machine \<Rightarrow> (int \<times> machine) option" where
  "execute_cond opcode s =
     (let sel = opcode AND 0xC7 in
      if sel = 0xC7 then Some (11, RST (word_of_int (DEST opcode * 8)) s)
      else if sel = 0xC4 then
        (if i8080_checkCondition (CONDITION opcode) s \<noteq> 0 then Some (17, CALL s)
         else Some (11, set_PC (PC s + 2) s))
      else if sel = 0xC2 then
        (if i8080_checkCondition (CONDITION opcode) s \<noteq> 0
         then Some (10, set_PC (RD_WORD (PC s) s) s)
         else Some (10, set_PC (PC s + 2) s))
      else if sel = 0xC0 then
        (if i8080_checkCondition (CONDITION opcode) s \<noteq> 0 then Some (11, POP set_PC s)
         else Some (5, s))
      else if sel = 0x06 then
        (let v = RD_BYTE (PC s) s;
             s = set_PC (PC s + 1) s
         in Some (7, REG_write (DEST opcode) v s))
      else if sel = 0x05 then
        (let (v, s) = DCR (REG_read (DEST opcode) s) s
         in Some (5, REG_write (DEST opcode) v s))
      else if sel = 0x04 then
        (let (v, s) = INR (REG_read (DEST opcode) s) s
         in Some (5, REG_write (DEST opcode) v s))
      else None)"

definition execute_pair :: "int \<Rightarrow> machine \<Rightarrow> (int \<times> machine) option" where
  "execute_pair opcode s =
     (let sel = opcode AND 0xCF in
      if sel = 0xC5 then Some (11, PUSH (PAIR_read (RP opcode)) s)
      else if sel = 0xC1 then Some (11, POP (PAIR_write (RP opcode)) s)
      else if sel = 0x0B then
        Some (5, PAIR_write (RP opcode) (PAIR_read (RP opcode) s - 1) s)
      else if sel = 0x0A then Some (7, set_A (RD_BYTE (PAIR_read (RP opcode) s) s) s)
      else if sel = 0x09 then Some (10, DAD (PAIR_read (RP opcode) s) s)
      else if sel = 0x03 then
        Some (5, PAIR_write (RP opcode) (PAIR_read (RP opcode) s + 1) s)
      else if sel = 0x02 then Some (7, WR_BYTE (PAIR_read (RP opcode) s) (A_reg s) s)
      else if sel = 0x01 then
        (let s = PAIR_write (RP opcode) (RD_WORD (PC s) s) s
         in Some (10, set_PC (PC s + 2) s))
      else None)"

text \<open>The tail of \<open>i8080_execute\<close>: the MOV family, then the sentinel \<open>-1\<close>.\<close>

definition execute_mov :: "int \<Rightarrow> machine \<Rightarrow> int \<times> machine" where
  "execute_mov opcode s =
     (if opcode AND 0xC0 = 0x40 then
        (let s = (if DEST opcode = 6 then WR_BYTE (HL s) (REG_read (SOURCE opcode) s) s
                  else if SOURCE opcode = 6
                  then REG_write (DEST opcode) (RD_BYTE (HL s) s) s
                  else REG_write (DEST opcode) (REG_read (SOURCE opcode) s) s)
         in (5, s))
      else (- 1, s))"

definition i8080_execute :: "int \<Rightarrow> machine \<Rightarrow> int \<times> machine" where
  "i8080_execute opcode s0 =
     (let (cpu_cycles, s) = execute_exact opcode s0 in
      if cpu_cycles \<noteq> 0 then (cpu_cycles, s)
      else case execute_alu opcode s of Some r \<Rightarrow> r | None \<Rightarrow>
           (case execute_cond opcode s of Some r \<Rightarrow> r | None \<Rightarrow>
            (case execute_pair opcode s of Some r \<Rightarrow> r | None \<Rightarrow>
             execute_mov opcode s)))"

definition i8080_instruction :: "machine \<Rightarrow> int \<times> machine" where
  "i8080_instruction s =
     (let opcode = RD_BYTE (PC s) s;
          s = set_PC (PC s + 1) s
      in i8080_execute (uint opcode) s)"

definition i8080_jump :: "int \<Rightarrow> machine \<Rightarrow> machine" where
  "i8080_jump addr s = set_PC (word_of_int (addr AND 0xffff)) s"

definition i8080_pc :: "machine \<Rightarrow> int" where "i8080_pc s = uint (PC s)"
definition i8080_regs_bc :: "machine \<Rightarrow> int" where "i8080_regs_bc s = uint (BC s)"
definition i8080_regs_de :: "machine \<Rightarrow> int" where "i8080_regs_de s = uint (DE s)"
definition i8080_regs_hl :: "machine \<Rightarrow> int" where "i8080_regs_hl s = uint (HL s)"
definition i8080_regs_sp :: "machine \<Rightarrow> int" where "i8080_regs_sp s = uint (SP s)"
definition i8080_regs_a :: "machine \<Rightarrow> int" where "i8080_regs_a s = uint (A_reg s)"
definition i8080_regs_b :: "machine \<Rightarrow> int" where "i8080_regs_b s = uint (B_reg s)"
definition i8080_regs_c :: "machine \<Rightarrow> int" where "i8080_regs_c s = uint (C_reg s)"
definition i8080_regs_d :: "machine \<Rightarrow> int" where "i8080_regs_d s = uint (D_reg s)"
definition i8080_regs_e :: "machine \<Rightarrow> int" where "i8080_regs_e s = uint (E_reg s)"
definition i8080_regs_h :: "machine \<Rightarrow> int" where "i8080_regs_h s = uint (H_reg s)"
definition i8080_regs_l :: "machine \<Rightarrow> int" where "i8080_regs_l s = uint (L_reg s)"

section \<open>Notions of the specification\<close>

text \<open>
  The file-scope objects have static storage duration, so every field is zero before
  the first call of \<open>i8080_init\<close>.
\<close>

definition cpu_static :: i8080 where
  "cpu_static =
     \<lparr>f = \<lparr>carry_flag = 0, unused1 = 0, parity_flag = 0, unused3 = 0,
            half_carry_flag = 0, unused5 = 0, zero_flag = 0, sign_flag = 0\<rparr>,
      af = 0, bc = 0, de = 0, hl = 0, sp = 0, pc = 0, iff = 0, last_pc = 0\<rparr>"

definition machine_static :: "(uns16 \<Rightarrow> uns8) \<Rightarrow> machine" where
  "machine_static mem =
     \<lparr>cpu = cpu_static, M = 0, memory = mem, io_in = (\<lambda>_. 0), io_out = [], iff_out = []\<rparr>"

text \<open>The fixed bits of the packed flags byte: 1, 0, 0 at bit positions 1, 3, 5.\<close>

definition fixed_bits :: "uns8 \<Rightarrow> bool" where
  "fixed_bits F \<longleftrightarrow> bit F 1 \<and> \<not> bit F 3 \<and> \<not> bit F 5"

text \<open>Even parity: the byte has an even number of set bits.\<close>

definition popcount :: "uns8 \<Rightarrow> nat" where
  "popcount r = length (filter (bit r) [0..<8])"

definition even_parity :: "uns8 \<Rightarrow> bool" where
  "even_parity r \<longleftrightarrow> even (popcount r)"

text \<open>
  Carry out of bit 3 of the 4-bit addition of the low nibbles (with a carry in), and
  borrow out of bit 3 of their subtraction (with a borrow in).
\<close>

definition nibble_carry :: "uns8 \<Rightarrow> uns8 \<Rightarrow> nat \<Rightarrow> bool" where
  "nibble_carry a v c \<longleftrightarrow> 16 \<le> unat (a AND 0x0F) + unat (v AND 0x0F) + c"

definition nibble_borrow :: "uns8 \<Rightarrow> uns8 \<Rightarrow> nat \<Rightarrow> bool" where
  "nibble_borrow a v c \<longleftrightarrow> unat (a AND 0x0F) < unat (v AND 0x0F) + c"

text \<open>
  The index the specification gives for the half-carry tables:
  \<open>((A&8)>>1) | ((op&8)>>2) | ((result&8)>>3)\<close>.
\<close>

definition spec_index :: "uns8 \<Rightarrow> uns8 \<Rightarrow> uns8 \<Rightarrow> nat" where
  "spec_index a op result =
     unat (drop_bit 1 (a AND 8) OR drop_bit 2 (op AND 8) OR drop_bit 3 (result AND 8))"

text \<open>
  DAA as the specification words it: let add=0, carry=C; if H or (A&0x0F)>9, add|=0x06;
  if C or (A>>4)>9 or ((A>>4)>=9 and (A&0x0F)>9), add|=0x60 and carry=1; then perform
  ADD(add) and finally overwrite C with the pre-computed carry.
\<close>

definition DAA_spec :: "machine \<Rightarrow> machine" where
  "DAA_spec s =
     (let add = (0 :: uns8);
          carry = C_FLAG s;
          add = (if H_FLAG s \<noteq> 0 \<or> A_reg s AND 0x0F > 9 then add OR 0x06 else add);
          hi = (C_FLAG s \<noteq> 0 \<or> drop_bit 4 (A_reg s) > 9
                  \<or> (drop_bit 4 (A_reg s) \<ge> 9 \<and> A_reg s AND 0x0F > 9));
          add = (if hi then add OR 0x60 else add);
          carry = (if hi then 1 else carry)
      in set_C_FLAG carry (ADD add s))"

text \<open>The program of the DAA scenario: MVI A,0x9B; DAA at address 0, memory otherwise zero.\<close>

definition daa_program :: "uns16 \<Rightarrow> uns8" where
  "daa_program = (\<lambda>_. 0)(0 := 0x3E, 1 := 0x9B, 2 := 0x27)"

text \<open>Memories and states for concrete runs.\<close>

definition psw_stack :: "uns16 \<Rightarrow> uns8" where
  "psw_stack = (\<lambda>_. 0)(0 := 0xFF, 1 := 0x12)"

definition cma_program :: "uns16 \<Rightarrow> uns8" where
  "cma_program = (\<lambda>_. 0)(0 := 0x2F)"

section \<open>Bytes, register pairs and truncation\<close>

lemma byte_masks: "(0xFF :: uns16) = mask 8" "(0xFF00 :: uns16) = NOT (mask 8)"
  by (simp_all add: mask_eq_exp_minus_1)

lemma b_h_set_b_h [simp]: "b_h (set_b_h v p) = v"
  by (rule bit_word_eqI) (auto simp: b_h_def set_b_h_def byte_masks bit_simps)
lemma b_l_set_b_h [simp]: "b_l (set_b_h v p) = b_l p"
  by (rule bit_word_eqI)  (auto simp: b_l_def set_b_h_def byte_masks bit_simps dest: bit_imp_le_length)
lemma b_l_set_b_l [simp]: "b_l (set_b_l v p) = v"
  by (rule bit_word_eqI) (auto simp: b_l_def set_b_l_def byte_masks bit_simps)
lemma b_h_set_b_l [simp]: "b_h (set_b_l v p) = b_h p"
  by (rule bit_word_eqI) (auto simp: b_h_def set_b_l_def byte_masks bit_simps dest: bit_imp_le_length)

lemmas macro_defs = AF_def BC_def DE_def HL_def SP_def PC_def IFF_def
  set_AF_def set_BC_def set_DE_def set_HL_def set_SP_def set_PC_def set_IFF_def
  A_reg_def F_reg_def B_reg_def C_reg_def D_reg_def E_reg_def H_reg_def L_reg_def
  set_A_def set_F_def set_B_def set_C_def set_D_def set_E_def set_H_def set_L_def set_M_def
  C_FLAG_def P_FLAG_def H_FLAG_def Z_FLAG_def S_FLAG_def UN1_FLAG_def UN3_FLAG_def UN5_FLAG_def
  set_C_FLAG_def set_P_FLAG_def set_H_FLAG_def set_Z_FLAG_def set_S_FLAG_def
  set_UN1_FLAG_def set_UN3_FLAG_def set_UN5_FLAG_def

lemma word_of_int_mod_65536: "(word_of_int (k mod 65536) :: uns8) = word_of_int k"
  by (simp add: word_of_int_eq_iff take_bit_eq_mod mod_mod_cancel)

lemma uint_ucast_up: "uint (ucast (a::uns8) :: uns16) = uint a"
  using uint_bounded[of a] by (simp add: unsigned_ucast_eq take_bit_int_eq_self_iff)

lemma ucast_and_ff: "(ucast (w AND 0xff :: uns16) :: uns8) = ucast w"
  by (rule bit_word_eqI) (auto simp: byte_masks bit_simps)

lemma ucast_add2: "(ucast ((ucast (a::uns8) :: uns16) + ucast (v::uns8)) :: uns8) = a + v"
  by (simp add: ucast_eq[of "_ + _"] uint_word_ariths uint_ucast_up word_of_int_mod_65536)

lemma ucast_sub2: "(ucast ((ucast (a::uns8) :: uns16) - ucast (v::uns8)) :: uns8) = a - v"
  by (simp add: ucast_eq[of "_ - _"] uint_word_ariths uint_ucast_up word_of_int_mod_65536)

lemma ucast_add3: "(ucast ((ucast (a::uns8) :: uns16) + ucast (v::uns8) + ucast (c :: uns8)) :: uns8) = a + v + c"
  by (simp add: ucast_eq[of "_ + _"] uint_word_ariths uint_ucast_up word_of_int_mod_65536)

lemma ucast_sub3: "(ucast ((ucast (a::uns8) :: uns16) - ucast (v::uns8) - ucast (c :: uns8)) :: uns8) = a - v - c"
  by (simp add: ucast_eq[of "_ - _"] uint_word_ariths uint_ucast_up word_of_int_mod_65536)

lemmas trunc_simps = ucast_and_ff ucast_add2 ucast_sub2 ucast_add3 ucast_sub3

section \<open>Enumerating the byte values\<close>

lemma upto_0_255: "[0..255] = 0 # 1 # [2..255]"
  by (simp add: upto_rec1)

lemma byte_cases: "0 \<le> n \<Longrightarrow> n \<le> 255 \<Longrightarrow> list_all P [0..255] \<Longrightarrow> P n"
  by (simp add: list_all_iff)

lemma upt_0_8: "[0..<8] = [0,1,2,3,4,5,6,7]"
  by (simp add: upt_rec)

section \<open>Parity\<close>

lemma getParity_byte:
  fixes n :: int
  assumes "0 \<le> n" "n \<le> 255"
  shows "i8080_getParity n = of_bool (even (length (filter (bit n) [0..<8])))"
proof -
  define P where "P = (\<lambda>n. i8080_getParity n = of_bool (even (length (filter (bit n) [0..<8]))))"
  have "list_all P [0..255]"
    unfolding upto_0_255
    apply (simp del: upt_rec_numeral)
    unfolding P_def
    apply (simp add: i8080_getParity_def upt_0_8)
    done
  from byte_cases[OF assms this] show ?thesis by (simp add: P_def)
qed

lemma uint_byte: "0 \<le> uint (r :: uns8)" "uint (r :: uns8) \<le> 255"
  using uint_bounded[of r] by simp_all

lemma bit_uint_byte: "bit (uint (r :: uns8)) = bit r"
  by (auto simp: fun_eq_iff bit_uint_iff dest: bit_imp_le_length)

lemma getParity_even_parity: "i8080_getParity (uint r) = of_bool (even_parity r)"
  by (simp add: getParity_byte uint_byte even_parity_def popcount_def bit_uint_byte)

lemma PARITY_even_parity: "PARITY r = of_bool (even_parity r)"
  by (simp add: PARITY_def getParity_even_parity)

lemma parity_ADD: "P_FLAG (ADD v s) = of_bool (even_parity (A_reg s + v))"
  by (simp add: ADD_def Let_def macro_defs trunc_simps PARITY_even_parity)
lemma parity_ADC: "P_FLAG (ADC v s) = of_bool (even_parity (A_reg s + v + C_FLAG s))"
  by (simp add: ADC_def Let_def macro_defs trunc_simps PARITY_even_parity)
lemma parity_SUB: "P_FLAG (SUB v s) = of_bool (even_parity (A_reg s - v))"
  by (simp add: SUB_def Let_def macro_defs trunc_simps PARITY_even_parity)
lemma parity_SBB: "P_FLAG (SBB v s) = of_bool (even_parity (A_reg s - v - C_FLAG s))"
  by (simp add: SBB_def Let_def macro_defs trunc_simps PARITY_even_parity)
lemma parity_CMP: "P_FLAG (CMP v s) = of_bool (even_parity (A_reg s - v))"
  by (simp add: CMP_def Let_def macro_defs trunc_simps PARITY_even_parity)
lemma parity_ANA: "P_FLAG (ANA v s) = of_bool (even_parity (A_reg s AND v))"
  by (simp add: ANA_def Let_def macro_defs trunc_simps PARITY_even_parity)
lemma parity_ORA: "P_FLAG (ORA v s) = of_bool (even_parity (A_reg s OR v))"
  by (simp add: ORA_def Let_def macro_defs trunc_simps PARITY_even_parity)
lemma parity_XRA: "P_FLAG (XRA v s) = of_bool (even_parity (A_reg s XOR v))"
  by (simp add: XRA_def Let_def macro_defs trunc_simps PARITY_even_parity)
lemma parity_INR: "P_FLAG (snd (INR r s)) = of_bool (even_parity (r + 1))" "fst (INR r s) = r + 1"
  by (simp_all add: INR_def Let_def macro_defs trunc_simps PARITY_even_parity)
lemma parity_DCR: "P_FLAG (snd (DCR r s)) = of_bool (even_parity (r - 1))" "fst (DCR r s) = r - 1"
  by (simp_all add: DCR_def Let_def macro_defs trunc_simps PARITY_even_parity)

lemma accumulator_after: "A_reg (ADD v s) = A_reg s + v" "A_reg (ADC v s) = A_reg s + v + C_FLAG s"
  "A_reg (SUB v s) = A_reg s - v" "A_reg (SBB v s) = A_reg s - v - C_FLAG s"
  "A_reg (CMP v s) = A_reg s" "A_reg (ANA v s) = A_reg s AND v" "A_reg (ORA v s) = A_reg s OR v"
  "A_reg (XRA v s) = A_reg s XOR v"
  by (simp_all add: ADD_def ADC_def SUB_def SBB_def CMP_def ANA_def ORA_def XRA_def Let_def macro_defs trunc_simps)

section \<open>Half-carry\<close>

lemma odd_div8: "odd ((k::int) div 8) \<longleftrightarrow> 8 \<le> k mod 16"
proof -
  have e: "k mod 16 = 8 * (k div 8 mod 2) + k mod 8"
    using zmod_zmult2_eq[of 2 k 8] by simp
  have b: "0 \<le> k mod 8" "k mod 8 < 8" by simp_all
  show ?thesis
  proof (cases "odd (k div 8)")
    case True
    then have "k div 8 mod 2 = 1" by (simp add: odd_iff_mod_2_eq_one)
    with e b True show ?thesis by simp
  next
    case False
    then have "k div 8 mod 2 = 0" by simp
    with e b False show ?thesis by simp
  qed
qed

lemma bit3_uns8: "bit (w :: uns8) 3 \<longleftrightarrow> 8 \<le> uint w mod 16"
  by (simp add: odd_div8[symmetric] bit_iff_odd flip: bit_uint_byte)

lemma bit3_uns16: "bit (w :: uns16) 3 \<longleftrightarrow> 8 \<le> uint w mod 16"
proof -
  have "bit w 3 = bit (uint w) 3" by (simp add: bit_uint_iff)
  then show ?thesis by (simp add: odd_div8[symmetric] bit_iff_odd)
qed

lemma alu_index_bits:
  "bit (alu_index a v w AND 7) 0 \<longleftrightarrow> bit w 3"
  "bit (alu_index a v w AND 7) (Suc 0) \<longleftrightarrow> bit v 3"
  "bit (alu_index a v w AND 7) 2 \<longleftrightarrow> bit a 3"
  by (simp_all add: alu_index_def bit_simps numeral_3_eq_3)

lemma three_bit_value: "0 \<le> k \<Longrightarrow> k < 8 \<Longrightarrow> nat k = (if bit k 2 then 4 else 0) + (if bit k 1 then 2 else 0) + (if bit k 0 then 1 else 0)"
  for k :: int
proof -
  assume "0 \<le> k" "k < 8"
  then have "list_all (\<lambda>k. nat k = (if bit k 2 then 4 else 0) + (if bit k 1 then 2 else 0) + (if bit k 0 then 1 else 0)) [0..7] \<Longrightarrow> ?thesis"
    by (simp add: list_all_iff)
  moreover have "[0..7] = [0,1,2,3,4,5,6,7::int]" by (simp add: upto_rec1)
  ultimately show ?thesis by simp
qed

lemma alu_index_value:
  "nat (alu_index a v w AND 7) = (if bit a 3 then 4 else 0) + (if bit v 3 then 2 else 0) + (if bit w 3 then 1 else 0)"
proof -
  have "0 \<le> alu_index a v w AND 7" by (simp add: alu_index_def)
  moreover have "alu_index a v w AND 7 \<le> 7" by (rule AND_upper2) simp
  ultimately show ?thesis
    using three_bit_value[of "alu_index a v w AND 7"] by (simp add: alu_index_bits del: bit_0)
qed


lemma uint_low_nibble: "uint ((a :: uns8) AND 0x0F) = uint a mod 16"
proof -
  have "uint (a AND 0x0F) = uint a AND 15" by (simp add: uint_and)
  also have "\<dots> = take_bit 4 (uint a)" by (simp add: take_bit_eq_mask mask_eq_exp_minus_1)
  also have "\<dots> = uint a mod 16" by (simp add: take_bit_eq_mod)
  finally show ?thesis .
qed

lemma flag_le_1_cases: "(c :: uns8) \<le> 1 \<Longrightarrow> uint c = 0 \<or> uint c = 1"
proof -
  assume "c \<le> 1"
  then have "uint c \<le> 1" by (simp add: word_le_def)
  moreover have "0 \<le> uint c" by simp
  ultimately show ?thesis by linarith
qed

lemma half_carry_table_carry:
  fixes a v c :: uns8
  assumes c: "c \<le> 1"
  defines "w \<equiv> (ucast a :: uns16) + ucast v + ucast c"
  shows "half_carry_table ! nat (alu_index a v w AND 7) = of_bool (nibble_carry a v (unat c))"
proof -
  define x y z where "x = uint a mod 16" and "y = uint v mod 16" and "z = uint c"
  have b: "0 \<le> x" "x < 16" "0 \<le> y" "y < 16" "z = 0 \<or> z = 1"
    using flag_le_1_cases[OF c] by (simp_all add: x_def y_def z_def)
  have "uint w = (uint a + uint v + uint c) mod 65536"
    by (simp add: w_def uint_word_ariths uint_ucast_up mod_simps)
  then have "uint w mod 16 = (uint a + uint v + uint c) mod 16"
    by (simp add: mod_mod_cancel)
  also have "\<dots> = (x + y + z) mod 16"
  proof -
    have "(uint a + uint v) mod 16 = (x + y) mod 16" by (simp add: x_def y_def mod_simps)
    then show ?thesis unfolding z_def by (rule mod_add_cong) simp
  qed
  finally have W: "uint w mod 16 = (x + y + z) mod 16" .
  have "unat (a AND 0x0F) = nat x" "unat (v AND 0x0F) = nat y" "unat c = nat z"
    by (simp_all only: unat_eq_nat_uint uint_low_nibble x_def y_def z_def)
  then have N: "nibble_carry a v (unat c) \<longleftrightarrow> 16 \<le> x + y + z"
    unfolding nibble_carry_def using b by linarith
  have A3: "bit a 3 \<longleftrightarrow> 8 \<le> x" and V3: "bit v 3 \<longleftrightarrow> 8 \<le> y"
    by (simp_all add: bit3_uns8 x_def y_def)
  have R: "(x + y + z) mod 16 = (if x + y + z < 16 then x + y + z else x + y + z - 16)"
  proof (cases "x + y + z < 16")
    case True
    with b have "0 \<le> x + y + z" by linarith
    with True show ?thesis by simp
  next
    case False
    with b have r: "0 \<le> x + y + z - 16" "x + y + z - 16 < 16" by linarith+
    have "(x + y + z) mod 16 = (x + y + z - 16) mod 16" by simp
    also have "\<dots> = x + y + z - 16" using r by (rule mod_pos_pos_trivial)
    finally show ?thesis using False by simp
  qed
  have W3: "bit w 3 \<longleftrightarrow> 8 \<le> (if x + y + z < 16 then x + y + z else x + y + z - 16)"
    by (simp only: bit3_uns16 W R)
  show ?thesis
    unfolding alu_index_value A3 V3 W3 N half_carry_table_def
    using b by (cases "8 \<le> x"; cases "8 \<le> y"; cases "x + y + z < 16"; simp; linarith?)
qed


lemma sub_half_carry_table_borrow:
  fixes a v c :: uns8
  assumes c: "c \<le> 1"
  defines "w \<equiv> (ucast a :: uns16) - ucast v - ucast c"
  shows "sub_half_carry_table ! nat (alu_index a v w AND 7) = of_bool (nibble_borrow a v (unat c))"
proof -
  define x y z where "x = uint a mod 16" and "y = uint v mod 16" and "z = uint c"
  have b: "0 \<le> x" "x < 16" "0 \<le> y" "y < 16" "z = 0 \<or> z = 1"
    using flag_le_1_cases[OF c] by (simp_all add: x_def y_def z_def)
  have "uint w = (uint a - uint v - uint c) mod 65536"
    by (simp add: w_def uint_word_ariths uint_ucast_up mod_simps)
  then have "uint w mod 16 = (uint a - uint v - uint c) mod 16"
    by (simp add: mod_mod_cancel)
  also have "\<dots> = (x - y - z) mod 16"
  proof -
    have "(uint a - uint v) mod 16 = (x - y) mod 16" by (simp add: x_def y_def mod_simps)
    then show ?thesis unfolding z_def by (rule mod_diff_cong) simp
  qed
  finally have W: "uint w mod 16 = (x - y - z) mod 16" .
  have "unat (a AND 0x0F) = nat x" "unat (v AND 0x0F) = nat y" "unat c = nat z"
    by (simp_all only: unat_eq_nat_uint uint_low_nibble x_def y_def z_def)
  then have N: "nibble_borrow a v (unat c) \<longleftrightarrow> x < y + z"
    unfolding nibble_borrow_def using b by linarith
  have A3: "bit a 3 \<longleftrightarrow> 8 \<le> x" and V3: "bit v 3 \<longleftrightarrow> 8 \<le> y"
    by (simp_all add: bit3_uns8 x_def y_def)
  have R: "(x - y - z) mod 16 = (if x < y + z then x - y - z + 16 else x - y - z)"
  proof (cases "x < y + z")
    case True
    with b have r: "0 \<le> x - y - z + 16" "x - y - z + 16 < 16" by linarith+
    have "(x - y - z) mod 16 = (x - y - z + 16) mod 16" by simp
    also have "\<dots> = x - y - z + 16" using r by (rule mod_pos_pos_trivial)
    finally show ?thesis using True by simp
  next
    case False
    with b have "0 \<le> x - y - z" "x - y - z < 16" by linarith+
    with False show ?thesis by simp
  qed
  have W3: "bit w 3 \<longleftrightarrow> 8 \<le> (if x < y + z then x - y - z + 16 else x - y - z)"
    by (simp only: bit3_uns16 W R)
  have z: "0 \<le> z" "z \<le> 1" using b by auto
  define R where "R \<longleftrightarrow> bit w 3"
  have key: "x < y + z \<longleftrightarrow> (if 8 \<le> x then 8 \<le> y \<and> R else 8 \<le> y \<or> R)"
    unfolding R_def W3 using b(1-4) z by (cases "x < y + z") auto
  show ?thesis
    unfolding alu_index_value A3 V3 N sub_half_carry_table_def key R_def[symmetric]
    by (cases "8 \<le> x"; cases "8 \<le> y"; cases R; simp)
qed


lemma half_carry_ADD: "H_FLAG (ADD v s) = of_bool (nibble_carry (A_reg s) v 0)"
  using half_carry_table_carry[of 0 "A_reg s" v] by (simp add: ADD_def Let_def macro_defs)

lemma half_carry_ADC: "C_FLAG s \<le> 1 \<Longrightarrow> H_FLAG (ADC v s) = of_bool (nibble_carry (A_reg s) v (unat (C_FLAG s)))"
  using half_carry_table_carry[of "C_FLAG s" "A_reg s" v] by (simp add: ADC_def Let_def macro_defs)

lemma half_carry_SUB: "H_FLAG (SUB v s) = of_bool (\<not> nibble_borrow (A_reg s) v 0)"
  using sub_half_carry_table_borrow[of 0 "A_reg s" v] by (simp add: SUB_def Let_def macro_defs)

lemma half_carry_SBB: "C_FLAG s \<le> 1 \<Longrightarrow> H_FLAG (SBB v s) = of_bool (\<not> nibble_borrow (A_reg s) v (unat (C_FLAG s)))"
  using sub_half_carry_table_borrow[of "C_FLAG s" "A_reg s" v] by (simp add: SBB_def Let_def macro_defs)

lemma half_carry_CMP: "H_FLAG (CMP v s) = of_bool (\<not> nibble_borrow (A_reg s) v 0)"
  using sub_half_carry_table_borrow[of 0 "A_reg s" v] by (simp add: CMP_def Let_def macro_defs)

lemma small_or: "0 \<le> p \<Longrightarrow> p < 8 \<Longrightarrow> 0 \<le> q \<Longrightarrow> q < 8 \<Longrightarrow> p OR q < (8::int)"
  using OR_upper[of p 3 q] by simp

lemma spec_index_value:
  "spec_index a v r = (if bit a 3 then 4 else 0) + (if bit v 3 then 2 else 0) + (if bit r 3 then 1 else 0)"
proof -
  define X where "X = drop_bit 1 (a AND 8) OR drop_bit 2 (v AND 8) OR drop_bit 3 (r AND 8)"
  have bits: "bit X 0 = bit r 3" "bit X (Suc 0) = bit v 3" "bit X 2 = bit a 3"
    by (simp_all add: X_def bit_simps numeral_3_eq_3)
  have "uint (a AND 8) \<le> 8" "uint (v AND 8) \<le> 8" "uint (r AND 8) \<le> 8"
    by (simp_all add: uint_and AND_upper2)
  then have "uint (drop_bit 1 (a AND 8)) < 8" "uint (drop_bit 2 (v AND 8)) < 8"
      "uint (drop_bit 3 (r AND 8)) < 8"
    by (simp_all add: drop_bit_eq_div uint_div)
  then have "uint X < 8"
    by (simp add: X_def uint_or small_or)
  moreover have "0 \<le> uint X" by simp
  ultimately have "nat (uint X) = (if bit (uint X) 2 then 4 else 0)
      + (if bit (uint X) 1 then 2 else 0) + (if bit (uint X) 0 then 1 else 0)"
    using three_bit_value[of "uint X"] by blast
  moreover have "bit (uint X) 0 = bit r 3" "bit (uint X) 1 = bit v 3" "bit (uint X) 2 = bit a 3"
    using bits by (simp_all add: bit_uint_iff del: bit_0)
  moreover have "spec_index a v r = nat (uint X)"
    by (simp only: spec_index_def X_def unat_eq_nat_uint)
  ultimately show ?thesis by (simp only:)
qed

lemma alu_index_spec_index: "nat (alu_index a v w AND 7) = spec_index a v (ucast w)"
  by (simp add: alu_index_value spec_index_value bit_simps)

section \<open>Compare and subtract\<close>

lemma and_0x80_iff_bit7: "(x :: 'a::len word) AND 0x80 = 0 \<longleftrightarrow> \<not> bit x 7"
  using and_exp_eq_0_iff_not_bit[of x 7] by simp

lemma ucast_zero_iff: "(w :: uns16) AND 0xff = 0 \<longleftrightarrow> (ucast w :: uns8) = 0"
proof -
  have "uint (w AND 0xff) = uint w AND 255" by (simp add: uint_and)
  also have "\<dots> = take_bit 8 (uint w)" by (simp add: take_bit_eq_mask mask_eq_exp_minus_1)
  finally have A: "uint (w AND 0xff) = take_bit 8 (uint w)" .
  have B: "uint (ucast w :: uns8) = take_bit 8 (uint w)"
    by (simp add: unsigned_ucast_eq)
  show ?thesis by (simp add: word_uint_eq_iff A B)
qed

lemma CMP_flags:
  "A_reg (CMP v s) = A_reg s"
  "S_FLAG (CMP v s) = S_FLAG (SUB v s)"
  "Z_FLAG (CMP v s) = Z_FLAG (SUB v s)"
  "H_FLAG (CMP v s) = H_FLAG (SUB v s)"
  "P_FLAG (CMP v s) = P_FLAG (SUB v s)"
  "C_FLAG (CMP v s) = C_FLAG (SUB v s)"
  by (simp_all add: CMP_def SUB_def Let_def macro_defs trunc_simps and_0x80_iff_bit7 bit_simps ucast_zero_iff)

lemma set_b_h_twice [simp]: "set_b_h x (set_b_h y p) = set_b_h x p"
  by (rule bit_word_eqI) (auto simp: set_b_h_def byte_masks bit_simps)

lemma set_b_h_same [simp]: "set_b_h (b_h p) p = p"
  by (rule bit_word_eqI) (auto simp: set_b_h_def b_h_def byte_masks bit_simps)

lemma CMP_eq_SUB: "CMP v s = set_A (A_reg s) (SUB v s)"
  apply (simp add: CMP_def SUB_def Let_def macro_defs trunc_simps and_0x80_iff_bit7 bit_simps ucast_zero_iff)
  done

section \<open>Single instructions\<close>

lemmas exec_defs = i8080_execute_def execute_exact_def execute_alu_def execute_cond_def
  execute_pair_def execute_mov_def DEST_def SOURCE_def CONDITION_def RP_def

lemma int_mask16: "(addr :: int) AND 0xffff = addr mod 65536"
proof -
  have "addr AND 0xffff = take_bit 16 addr" by (simp add: take_bit_eq_mask mask_eq_exp_minus_1)
  then show ?thesis by (simp add: take_bit_eq_mod)
qed

lemma jump_pc: "uint (PC (i8080_jump addr s)) = addr mod 65536 \<and>
    i8080_jump addr s = s\<lparr>cpu := (cpu s)\<lparr>pc := PC (i8080_jump addr s)\<rparr>\<rparr>"
  by (simp add: i8080_jump_def macro_defs int_mask16 uint_word_of_int)

lemma xor_0xff_NOT: "(x :: uns8) XOR 0xff = NOT x"
proof -
  have "(0xff :: uns8) = - 1" by simp
  then show ?thesis by (simp only: bit.xor_one_right)
qed

lemma exec_cma: "i8080_execute 0x2F s = (4, set_A (NOT (A_reg s)) s)"
  by (simp add: exec_defs xor_0xff_NOT)

lemma init_state: "i8080_init s = s\<lparr>cpu := (cpu s)\<lparr>f := \<lparr>carry_flag = 0, unused1 = 1, parity_flag = 0, unused3 = 0,
            half_carry_flag = 0, unused5 = 0, zero_flag = 0, sign_flag = 0\<rparr>, pc := 0xF800\<rparr>\<rparr>"
  by (simp add: i8080_init_def macro_defs)

lemma exec_pop_psw: "i8080_execute 0xF1 s = (10, i8080_retrieve_flags (POP set_AF s))"
  by (simp add: exec_defs)

lemma exec_push_psw: "i8080_execute 0xF5 s = (11, PUSH AF (i8080_store_flags s))"
  by (simp add: exec_defs)

lemma b_l_RD_WORD: "b_l (RD_WORD a s) = RD_BYTE a s"
  by (rule bit_word_eqI) (auto simp: b_l_def RD_WORD_def RD_BYTE_def bit_simps)

lemma F_after_pop_psw: "F_reg (i8080_retrieve_flags (POP set_AF s)) = RD_BYTE (SP s) s"
  by (simp add: i8080_retrieve_flags_def POP_def Let_def macro_defs b_l_RD_WORD)

lemma fixed_bits_store_flags: "fixed_bits (F_reg (i8080_store_flags s))"
  apply (simp add: i8080_store_flags_def Let_def)
  apply (simp add: macro_defs fixed_bits_def F_UN1_def F_UN3_def F_UN5_def bit_simps)
  done

lemma and_bit_tests:
  "(x :: uns8) AND 0x40 = 0 \<longleftrightarrow> \<not> bit x 6"
  "(x :: uns8) AND 0x10 = 0 \<longleftrightarrow> \<not> bit x 4"
  "(x :: uns8) AND 0x04 = 0 \<longleftrightarrow> \<not> bit x 2"
  "(x :: uns8) AND 0x01 = 0 \<longleftrightarrow> \<not> bit x 0"
  using and_exp_eq_0_iff_not_bit[of x 6] and_exp_eq_0_iff_not_bit[of x 4]
    and_exp_eq_0_iff_not_bit[of x 2] and_exp_eq_0_iff_not_bit[of x 0]
  by simp_all

lemma pop_psw_flags:
  "S_FLAG (i8080_retrieve_flags (POP set_AF s)) = of_bool (bit (RD_BYTE (SP s) s) 7)"
  "Z_FLAG (i8080_retrieve_flags (POP set_AF s)) = of_bool (bit (RD_BYTE (SP s) s) 6)"
  "H_FLAG (i8080_retrieve_flags (POP set_AF s)) = of_bool (bit (RD_BYTE (SP s) s) 4)"
  "P_FLAG (i8080_retrieve_flags (POP set_AF s)) = of_bool (bit (RD_BYTE (SP s) s) 2)"
  "C_FLAG (i8080_retrieve_flags (POP set_AF s)) = of_bool (bit (RD_BYTE (SP s) s) 0)"
  "UN1_FLAG (i8080_retrieve_flags (POP set_AF s)) = UN1_FLAG s"
  "UN3_FLAG (i8080_retrieve_flags (POP set_AF s)) = UN3_FLAG s"
  "UN5_FLAG (i8080_retrieve_flags (POP set_AF s)) = UN5_FLAG s"
  "SP (i8080_retrieve_flags (POP set_AF s)) = SP s + 2"
  by (simp_all add: i8080_retrieve_flags_def POP_def Let_def macro_defs b_l_RD_WORD
      F_NEG_def F_ZERO_def F_HCARRY_def F_PARITY_def F_CARRY_def and_0x80_iff_bit7 and_bit_tests del: bit_0)

lemma F_after_push: "F_reg (PUSH AF (i8080_store_flags s)) = F_reg (i8080_store_flags s)"
  by (simp add: PUSH_def WR_WORD_def Let_def macro_defs)

lemma store_flags_frame: "SP (i8080_store_flags s) = SP s"
  by (simp add: i8080_store_flags_def Let_def macro_defs)

lemma stack_byte_after_push:
  "RD_BYTE (SP s - 2) (PUSH AF (i8080_store_flags s)) = F_reg (i8080_store_flags s)"
  by (simp add: PUSH_def WR_WORD_def RD_BYTE_def Let_def store_flags_frame[unfolded SP_def] macro_defs b_l_def)

section \<open>Coverage of the decoder\<close>

lemma alu_cycles_pos: "execute_alu n s = Some r \<Longrightarrow> 0 < fst r"
  by (auto simp add: execute_alu_def Let_def split: if_splits)

lemma cond_cycles_pos: "execute_cond n s = Some r \<Longrightarrow> 0 < fst r"
  by (auto simp add: execute_cond_def Let_def split_def split: if_splits)

lemma pair_cycles_pos: "execute_pair n s = Some r \<Longrightarrow> 0 < fst r"
  by (auto simp add: execute_pair_def Let_def split: if_splits)

lemma exact_cycles_nonneg: "0 \<le> fst (execute_exact n s)"
  by (simp add: execute_exact_def Let_def split_def)

lemma exact_zero_iff:
  "fst (execute_exact n s) = 0 \<longleftrightarrow>
     n \<notin> {0x00, 0x08, 0x10, 0x18, 0x20, 0x28, 0x30, 0x38, 0x07, 0x0F, 0x17, 0x1F, 0x22, 0x27,
           0x2A, 0x2F, 0x32, 0x34, 0x35, 0x36, 0x37, 0x3A, 0x3F, 0x76, 0x86, 0x8E, 0x96, 0x9E,
           0xA6, 0xAE, 0xB6, 0xBE, 0xC3, 0xCB, 0xC6, 0xC9, 0xD9, 0xCD, 0xDD, 0xED, 0xFD, 0xCE,
           0xD3, 0xD6, 0xDB, 0xDE, 0xE3, 0xE6, 0xE9, 0xEB, 0xEE, 0xF1, 0xF3, 0xF5, 0xF6, 0xF9,
           0xFB, 0xFE}"
  by (simp add: execute_exact_def Let_def split_def)

lemma alu_none_iff:
  "execute_alu n s = None \<longleftrightarrow> n AND 0xF8 \<notin> {0xB8, 0xB0, 0xA8, 0xA0, 0x98, 0x90, 0x88, 0x80}"
  by (simp add: execute_alu_def Let_def)

lemma cond_none_iff:
  "execute_cond n s = None \<longleftrightarrow> n AND 0xC7 \<notin> {0xC7, 0xC4, 0xC2, 0xC0, 0x06, 0x05, 0x04}"
  by (simp add: execute_cond_def Let_def split_def)

lemma pair_none_iff:
  "execute_pair n s = None \<longleftrightarrow> n AND 0xCF \<notin> {0xC5, 0xC1, 0x0B, 0x0A, 0x09, 0x03, 0x02, 0x01}"
  by (simp add: execute_pair_def Let_def)

lemma coverage:
  assumes "0 \<le> n" "n \<le> 255"
  shows "fst (execute_exact n s) \<noteq> 0 \<or> execute_alu n s1 \<noteq> None \<or> execute_cond n s2 \<noteq> None
     \<or> execute_pair n s3 \<noteq> None \<or> n AND 0xC0 = 0x40"
proof -
  define P where "P = (\<lambda>n. fst (execute_exact n s) \<noteq> 0 \<or> execute_alu n s1 \<noteq> None \<or> execute_cond n s2 \<noteq> None
     \<or> execute_pair n s3 \<noteq> None \<or> n AND 0xC0 = 0x40)"
  have "list_all P [0..255]"
    unfolding upto_0_255
    apply simp
    unfolding P_def exact_zero_iff alu_none_iff cond_none_iff pair_none_iff
    apply simp
    done
  from byte_cases[OF assms this] show ?thesis by (simp add: P_def)
qed

section \<open>Decimal adjust\<close>

lemma exec_daa: "i8080_execute 0x27 t = (4, DAA_spec t)"
  apply (simp add: exec_defs DAA_spec_def Let_def)
  apply (simp add: ADD_def Let_def macro_defs)
  done

lemma exec_mvi_a: "i8080_execute 0x3E s = (7, set_A (RD_BYTE (PC s) s) (set_PC (PC s + 1) s))"
  by (simp add: exec_defs Let_def REG_write_def)

lemma daa_run:
  assumes "RD_BYTE 0 s = 0x3E" "RD_BYTE 1 s = 0x9B" "RD_BYTE 2 s = 0x27"
  shows "(let s0 = i8080_jump 0 (i8080_init s);
             (c1, s1) = i8080_instruction s0;
             (c2, s2) = i8080_instruction s1
         in A_reg s2 = 0x01 \<and> C_FLAG s2 = 1 \<and> H_FLAG s2 = 1 \<and> Z_FLAG s2 = 0 \<and>
            P_FLAG s2 = 0 \<and> S_FLAG s2 = 0 \<and> c1 = 7 \<and> c2 = 4 \<and> c1 + c2 = 11)"
proof -
  define s0 where "s0 = i8080_jump 0 (i8080_init s)"
  have st0: "pc (cpu s0) = 0" "memory s0 = memory s"
    "half_carry_flag (f (cpu s0)) = 0" "carry_flag (f (cpu s0)) = 0"
    by (simp_all add: s0_def i8080_jump_def i8080_init_def Let_def macro_defs)
  define s1 where "s1 = set_A 0x9B (set_PC 2 s0)"
  have i1: "i8080_instruction s0 = (7, s1)"
    using assms(1,2) by (simp add: i8080_instruction_def Let_def exec_mvi_a s1_def RD_BYTE_def macro_defs st0)
  have st1: "pc (cpu s1) = 2" "memory s1 = memory s" "b_h (af (cpu s1)) = 0x9B"
    "half_carry_flag (f (cpu s1)) = 0" "carry_flag (f (cpu s1)) = 0"
    using st0 by (simp_all add: s1_def macro_defs)
  define s2 where "s2 = DAA_spec (set_PC 3 s1)"
  have i2: "i8080_instruction s1 = (4, s2)"
    using assms(3) by (simp add: i8080_instruction_def Let_def exec_daa s2_def RD_BYTE_def macro_defs st1)
  have "A_reg s2 = 0x01 \<and> C_FLAG s2 = 1 \<and> H_FLAG s2 = 1 \<and> Z_FLAG s2 = 0 \<and>
            P_FLAG s2 = 0 \<and> S_FLAG s2 = 0"
    apply (simp add: s2_def DAA_spec_def ADD_def Let_def macro_defs st1 alu_index_def half_carry_table_def
       PARITY_def i8080_getParity_def)
    done
  then show ?thesis
    by (simp add: s0_def[symmetric] i1 i2 Let_def)
qed


section \<open>The carry flag holds 0 or 1\<close>

lemma carry_le1:
  "(of_bool b :: uns8) \<le> 1" "(x :: uns8) AND 1 \<le> 1" "(0 :: uns8) \<le> 1"
  by (simp_all add: word_and_le1)

lemma carry_macros:
  "C_FLAG (ADD v s) \<le> 1" "C_FLAG (ADC v s) \<le> 1" "C_FLAG (SUB v s) \<le> 1"
  "C_FLAG (SBB v s) \<le> 1" "C_FLAG (CMP v s) \<le> 1" "C_FLAG (ANA v s) \<le> 1"
  "C_FLAG (XRA v s) \<le> 1" "C_FLAG (ORA v s) \<le> 1" "C_FLAG (DAD w s) \<le> 1"
  by (simp_all add: ADD_def ADC_def SUB_def SBB_def CMP_def ANA_def XRA_def ORA_def DAD_def
      Let_def macro_defs)

lemma carry_frame:
  "C_FLAG (snd (INR r s)) = C_FLAG s" "C_FLAG (snd (DCR r s)) = C_FLAG s"
  "C_FLAG (REG_write i v s) = C_FLAG s" "C_FLAG (PAIR_write i w s) = C_FLAG s"
  "C_FLAG (WR_BYTE a v s) = C_FLAG s" "C_FLAG (WR_WORD a w s) = C_FLAG s"
  "C_FLAG (POP set_PC s) = C_FLAG s" "C_FLAG (POP (PAIR_write i) s) = C_FLAG s"
  "C_FLAG (PUSH g s) = C_FLAG s" "C_FLAG (CALL s) = C_FLAG s" "C_FLAG (RST w s) = C_FLAG s"
  "C_FLAG (set_PC w s) = C_FLAG s" "C_FLAG (set_A v s) = C_FLAG s"
  by (simp_all add: INR_def DCR_def REG_write_def PAIR_write_def WR_BYTE_def WR_WORD_def
      POP_def PUSH_def CALL_def RST_def Let_def macro_defs)

lemma exact_carry: "C_FLAG s \<le> 1 \<Longrightarrow> C_FLAG (snd (execute_exact n s)) \<le> 1"
  by (simp add: execute_exact_def Let_def split_def carry_macros carry_frame)
     (simp add: carry_le1 macro_defs i8080_retrieve_flags_def i8080_store_flags_def
        i8080_hal_iff_def i8080_hal_io_output_def POP_def PUSH_def WR_WORD_def WR_BYTE_def Let_def)


lemma alu_carry: "execute_alu n s = Some r \<Longrightarrow> C_FLAG (snd r) \<le> 1"
  by (auto simp add: execute_alu_def Let_def carry_macros split: if_splits)

lemma cond_carry: "C_FLAG s \<le> 1 \<Longrightarrow> execute_cond n s = Some r \<Longrightarrow> C_FLAG (snd r) \<le> 1"
  by (auto simp add: execute_cond_def Let_def split_def carry_frame split: if_splits)

lemma pair_carry: "C_FLAG s \<le> 1 \<Longrightarrow> execute_pair n s = Some r \<Longrightarrow> C_FLAG (snd r) \<le> 1"
  by (auto simp add: execute_pair_def Let_def carry_frame carry_macros split: if_splits)

lemma mov_carry: "C_FLAG s \<le> 1 \<Longrightarrow> C_FLAG (snd (execute_mov n s)) \<le> 1"
  by (simp add: execute_mov_def Let_def carry_frame)

text \<open>
  The carry flag holds 0 or 1 in every state the core reaches: init clears it, jump
  keeps it, and every instruction leaves it at 0 or 1.
\<close>

lemma carry_flag_invariant:
  "C_FLAG (i8080_init s) = 0"
  "C_FLAG (i8080_jump addr s) = C_FLAG s"
  "C_FLAG s \<le> 1 \<Longrightarrow> C_FLAG (snd (i8080_execute op s)) \<le> 1"
  "C_FLAG s \<le> 1 \<Longrightarrow> C_FLAG (snd (i8080_instruction s)) \<le> 1"
proof -
  show "C_FLAG (i8080_init s) = 0" "C_FLAG (i8080_jump addr s) = C_FLAG s"
    by (simp_all add: i8080_init_def i8080_jump_def Let_def macro_defs)
  have ex: "C_FLAG (snd (i8080_execute n t)) \<le> 1" if c: "C_FLAG t \<le> 1" for n t
  proof -
    let ?t1 = "snd (execute_exact n t)"
    have c1: "C_FLAG ?t1 \<le> 1" using c by (rule exact_carry)
    show ?thesis
    proof (cases "fst (execute_exact n t) = 0")
      case False
      with c1 show ?thesis by (simp add: i8080_execute_def split_def)
    next
      case True
      then have e: "i8080_execute n t =
        (case execute_alu n ?t1 of Some r \<Rightarrow> r | None \<Rightarrow>
          (case execute_cond n ?t1 of Some r \<Rightarrow> r | None \<Rightarrow>
            (case execute_pair n ?t1 of Some r \<Rightarrow> r | None \<Rightarrow> execute_mov n ?t1)))"
        by (simp add: i8080_execute_def split_def Let_def)
      show ?thesis
        unfolding e using alu_carry[of n ?t1] cond_carry[OF c1, of n] pair_carry[OF c1, of n]
          mov_carry[OF c1, of n]
        by (simp split: option.splits)
    qed
  qed
  show "C_FLAG (snd (i8080_execute op s)) \<le> 1" if "C_FLAG s \<le> 1"
    using that by (rule ex)
  show "C_FLAG (snd (i8080_instruction s)) \<le> 1" if "C_FLAG s \<le> 1"
    unfolding i8080_instruction_def Let_def
    by (rule ex) (simp add: carry_frame that)
qed

section \<open>The claims\<close>

subsection \<open>Cycle counts of the 7-cycle classes and of MOV\<close>

lemma seven_cycle_classes:
  "list_all (\<lambda>op. fst (i8080_execute op s) = 7)
   [0x86, 0x8E, 0x96, 0x9E, 0xA6, 0xAE, 0xB6, 0xBE,
    0x06, 0x0E, 0x16, 0x1E, 0x26, 0x2E, 0x3E,
    0xC6, 0xCE, 0xD6, 0xDE, 0xE6, 0xEE, 0xF6, 0xFE,
    0x0A, 0x1A, 0x02, 0x12]"
  by (simp add: exec_defs Let_def split_def)

lemma mov_register_cycles:
  "list_all (\<lambda>op. fst (i8080_execute op s) = 5)
   [0x40, 0x41, 0x42, 0x43, 0x44, 0x45, 0x47, 0x48, 0x49, 0x4A, 0x4B, 0x4C, 0x4D, 0x4F,
    0x50, 0x51, 0x52, 0x53, 0x54, 0x55, 0x57, 0x58, 0x59, 0x5A, 0x5B, 0x5C, 0x5D, 0x5F,
    0x60, 0x61, 0x62, 0x63, 0x64, 0x65, 0x67, 0x68, 0x69, 0x6A, 0x6B, 0x6C, 0x6D, 0x6F,
    0x78, 0x79, 0x7A, 0x7B, 0x7C, 0x7D, 0x7F]"
  by (simp add: exec_defs)

text \<open>
  C1. The claim gives 7 machine cycles to every MOV with a memory operand (MOV r,M and
  MOV M,r), as to ALU M, MVI r,d8, the immediate ALU operations, LDAX and STAX, and 5 to
  MOV r,r. The code returns 5 for every opcode of the MOV family, memory operand or not:
  the fourteen opcodes MOV r,M and MOV M,r all cost 5 here. (The other classes cost 7 and
  MOV r,r costs 5, see \<open>seven_cycle_classes\<close> and \<open>mov_register_cycles\<close>.)
\<close>

theorem mov_memory_operand_cycles:
  "list_all (\<lambda>op. fst (i8080_execute op s) = 5)
     [0x46, 0x4E, 0x56, 0x5E, 0x66, 0x6E, 0x7E, 0x70, 0x71, 0x72, 0x73, 0x74, 0x75, 0x77]
   \<and> fst (i8080_instruction (WR_BYTE (PC s) 0x7E s)) = 5"
  by (simp add: i8080_instruction_def WR_BYTE_def RD_BYTE_def Let_def macro_defs)
     (simp add: exec_defs)


subsection \<open>Fixed bits of the flags byte\<close>

text \<open>
  C2 (as amended). POP PSW (opcode 0xF1) loads F with the low byte of the popped word as
  it is: the fixed bits are not forced. It takes the flags S, Z, H, P, C from bits 7, 6, 4,
  2, 0 of that byte and leaves the three fixed flags of the flag structure alone. The
  fixed bits 1, 0, 0 at positions 1, 3, 5 are forced where PUSH PSW (opcode 0xF5)
  materialises F: in F itself and in the flags byte it writes to the stack.
\<close>

theorem psw_fixed_bits:
  "fixed_bits (F_reg (snd (i8080_execute 0xF5 s))) \<and>
   fixed_bits (RD_BYTE (SP s - 2) (snd (i8080_execute 0xF5 s))) \<and>
   F_reg (snd (i8080_execute 0xF1 s)) = RD_BYTE (SP s) s \<and>
   S_FLAG (snd (i8080_execute 0xF1 s)) = of_bool (bit (RD_BYTE (SP s) s) 7) \<and>
   Z_FLAG (snd (i8080_execute 0xF1 s)) = of_bool (bit (RD_BYTE (SP s) s) 6) \<and>
   H_FLAG (snd (i8080_execute 0xF1 s)) = of_bool (bit (RD_BYTE (SP s) s) 4) \<and>
   P_FLAG (snd (i8080_execute 0xF1 s)) = of_bool (bit (RD_BYTE (SP s) s) 2) \<and>
   C_FLAG (snd (i8080_execute 0xF1 s)) = of_bool (bit (RD_BYTE (SP s) s) 0) \<and>
   UN1_FLAG (snd (i8080_execute 0xF1 s)) = UN1_FLAG s \<and>
   UN3_FLAG (snd (i8080_execute 0xF1 s)) = UN3_FLAG s \<and>
   UN5_FLAG (snd (i8080_execute 0xF1 s)) = UN5_FLAG s"
  by (simp add: exec_pop_psw exec_push_psw F_after_push stack_byte_after_push fixed_bits_store_flags F_after_pop_psw pop_psw_flags del: bit_0)

text \<open>
  The claim as stated fails: popping the word 0x12FF from the stack leaves F = 0xFF,
  with bits 3 and 5 set.
\<close>

theorem pop_psw_keeps_popped_bits:
  "\<not> fixed_bits (F_reg (snd (i8080_execute 0xF1 (machine_static psw_stack))))"
  by (simp add: exec_pop_psw F_after_pop_psw RD_BYTE_def SP_def machine_static_def cpu_static_def
      psw_stack_def fixed_bits_def)

subsection \<open>Reset\<close>

text \<open>
  C3 (as amended). From any prior state, init sets the five flags C, S, Z, H, P to 0, the
  three fixed flags to 1, 0, 0 and PC to 0xF800, and changes nothing else: A, F, B, C, D,
  E, H, L, SP and IFF keep their prior values. They are 0 after init when they were 0
  before, as in the zero-initialised static state the program starts in.
\<close>

theorem init_effect:
  "i8080_init s =
     s\<lparr>cpu := (cpu s)\<lparr>f := \<lparr>carry_flag = 0, unused1 = 1, parity_flag = 0, unused3 = 0,
                               half_carry_flag = 0, unused5 = 0, zero_flag = 0, sign_flag = 0\<rparr>,
                         pc := 0xF800\<rparr>\<rparr> \<and>
   PC (i8080_init s) = 0xF800 \<and>
   A_reg (i8080_init s) = A_reg s \<and> F_reg (i8080_init s) = F_reg s \<and>
   BC (i8080_init s) = BC s \<and> DE (i8080_init s) = DE s \<and> HL (i8080_init s) = HL s \<and>
   SP (i8080_init s) = SP s \<and> IFF (i8080_init s) = IFF s \<and>
   A_reg (i8080_init (machine_static mem)) = 0 \<and> F_reg (i8080_init (machine_static mem)) = 0 \<and>
   BC (i8080_init (machine_static mem)) = 0 \<and> DE (i8080_init (machine_static mem)) = 0 \<and>
   HL (i8080_init (machine_static mem)) = 0 \<and> SP (i8080_init (machine_static mem)) = 0 \<and>
   IFF (i8080_init (machine_static mem)) = 0"
  by (simp add: init_state macro_defs machine_static_def cpu_static_def b_h_def b_l_def)

text \<open>
  The claim as stated fails: from a prior state whose accumulator holds 1, the
  accumulator still holds 1 after init.
\<close>

theorem init_keeps_accumulator:
  "A_reg (i8080_init (set_A 1 (machine_static daa_program))) \<noteq> 0"
  by (simp add: init_state macro_defs)

subsection \<open>Totality of the decoder\<close>

text \<open>
  C4. For every opcode value in [0,255] and every state, the decoder returns a positive
  cycle count, so the sentinel -1 of the default path is not reached: the exact-match
  table, the three masked families and the MOV family cover all 256 values. A step
  fetches a byte, so every step returns a positive count.
\<close>

theorem decoder_total:
  assumes "0 \<le> op" and "op \<le> 255"
  shows "0 < fst (i8080_execute op s) \<and> fst (i8080_execute op s) \<noteq> - 1 \<and>
    (0 < fst (execute_exact op s) \<or> execute_alu op s \<noteq> None \<or> execute_cond op s \<noteq> None
       \<or> execute_pair op s \<noteq> None \<or> op AND 0xC0 = 0x40) \<and>
    0 < fst (i8080_instruction s)"
proof -
  have pos: "0 < fst (i8080_execute n t)" if n: "0 \<le> n" "n \<le> 255" for n t
  proof (cases "fst (execute_exact n t) = 0")
    case False
    with exact_cycles_nonneg[of n t] show ?thesis
      by (simp add: i8080_execute_def split_def)
  next
    case True
    let ?t1 = "snd (execute_exact n t)"
    have e: "i8080_execute n t =
        (case execute_alu n ?t1 of Some r \<Rightarrow> r | None \<Rightarrow>
          (case execute_cond n ?t1 of Some r \<Rightarrow> r | None \<Rightarrow>
            (case execute_pair n ?t1 of Some r \<Rightarrow> r | None \<Rightarrow> execute_mov n ?t1)))"
      using True by (simp add: i8080_execute_def split_def Let_def)
    show ?thesis
    proof (cases "execute_alu n ?t1")
      case (Some r)
      with e alu_cycles_pos[OF Some] show ?thesis by simp
    next
      case a: None
      show ?thesis
      proof (cases "execute_cond n ?t1")
        case (Some r)
        with e a cond_cycles_pos[OF Some] show ?thesis by simp
      next
        case c: None
        show ?thesis
        proof (cases "execute_pair n ?t1")
          case (Some r)
          with e a c pair_cycles_pos[OF Some] show ?thesis by simp
        next
          case p: None
          from coverage[OF n, of t ?t1 ?t1 ?t1] True a c p have "n AND 0xC0 = 0x40" by simp
          with e a c p show ?thesis by (simp add: execute_mov_def Let_def)
        qed
      qed
    qed
  qed
  have "0 \<le> uint (RD_BYTE (PC s) s)" "uint (RD_BYTE (PC s) s) \<le> 255"
    by (simp_all add: uint_byte)
  then have step: "0 < fst (i8080_instruction s)"
    unfolding i8080_instruction_def Let_def by (rule pos)
  have cov: "0 < fst (execute_exact op s) \<or> execute_alu op s \<noteq> None \<or> execute_cond op s \<noteq> None
       \<or> execute_pair op s \<noteq> None \<or> op AND 0xC0 = 0x40"
    using coverage[OF assms, of s s s s] exact_cycles_nonneg[of op s] by auto
  from pos[OF assms, of s] step cov show ?thesis by simp
qed

theorem decoder_total_witness:
  "(0::int) \<le> 0x76 \<and> (0x76::int) \<le> 255 \<and>
   0 < fst (i8080_execute 0x76 (machine_static daa_program)) \<and>
   0 < fst (i8080_instruction (machine_static daa_program))"
  using decoder_total[of "0x76" "machine_static daa_program"] by simp

text \<open>Outside the byte range the sentinel is reached, for instance at 256.\<close>

lemma sentinel_outside_byte_range: "fst (i8080_execute 256 s) = - 1"
  by (simp add: exec_defs)

subsection \<open>Half-carry\<close>

lemma half_carry_table_spec:
  "c \<le> 1 \<Longrightarrow> half_carry_table ! spec_index a v (a + v + c) = of_bool (nibble_carry a v (unat c))"
  using half_carry_table_carry[of c a v] by (simp add: alu_index_spec_index trunc_simps)

lemma sub_half_carry_table_spec:
  "c \<le> 1 \<Longrightarrow> sub_half_carry_table ! spec_index a v (a - v - c) = of_bool (nibble_borrow a v (unat c))"
  using sub_half_carry_table_borrow[of c a v] by (simp add: alu_index_spec_index trunc_simps)

text \<open>
  C5. For every accumulator and operand, the half-carry flag after ADD and ADC is the
  carry out of bit 3 of the 4-bit addition of the low nibbles (with the carry flag coming
  in for ADC), and after SUB, SBB and CMP it is the complement of the borrow out of bit 3
  (with the carry flag as borrow in for SBB). The tables, indexed as the specification
  says by \<open>((A&8)>>1) | ((op&8)>>2) | ((result&8)>>3)\<close>, compute the carry and the
  borrow. The carry flag coming in is a flag: the structure keeps it in a byte, and it
  holds 0 or 1 in every state the core reaches (\<open>carry_flag_invariant\<close>).
\<close>

theorem half_carry_is_nibble_carry:
  "H_FLAG (ADD v s) = of_bool (nibble_carry (A_reg s) v 0) \<and>
   (C_FLAG s \<le> 1 \<longrightarrow> H_FLAG (ADC v s) = of_bool (nibble_carry (A_reg s) v (unat (C_FLAG s)))) \<and>
   H_FLAG (SUB v s) = of_bool (\<not> nibble_borrow (A_reg s) v 0) \<and>
   (C_FLAG s \<le> 1 \<longrightarrow>
      H_FLAG (SBB v s) = of_bool (\<not> nibble_borrow (A_reg s) v (unat (C_FLAG s)))) \<and>
   H_FLAG (CMP v s) = of_bool (\<not> nibble_borrow (A_reg s) v 0) \<and>
   (c \<le> 1 \<longrightarrow>
      half_carry_table ! spec_index a v (a + v + c) = of_bool (nibble_carry a v (unat c)) \<and>
      sub_half_carry_table ! spec_index a v (a - v - c) = of_bool (nibble_borrow a v (unat c)))"
  by (simp add: half_carry_ADD half_carry_ADC half_carry_SUB half_carry_SBB half_carry_CMP half_carry_table_spec sub_half_carry_table_spec)

theorem half_carry_is_nibble_carry_witness:
  "C_FLAG (set_A 0x0F (machine_static daa_program)) \<le> 1 \<and> (1 :: uns8) \<le> 1 \<and>
   H_FLAG (ADD 1 (set_A 0x0F (machine_static daa_program))) = 1 \<and>
   H_FLAG (ADC 1 (set_A 0x0F (machine_static daa_program))) = 1 \<and>
   H_FLAG (SUB 1 (set_A 0x0F (machine_static daa_program))) = 1 \<and>
   H_FLAG (SBB 1 (set_A 0x0F (machine_static daa_program))) = 1 \<and>
   H_FLAG (CMP 1 (set_A 0x0F (machine_static daa_program))) = 1 \<and>
   half_carry_table ! spec_index 0x0F 0x01 (0x0F + 0x01 + 1) = 1 \<and>
   sub_half_carry_table ! spec_index 0x10 0x01 (0x10 - 0x01 - 1) = 1"
  using half_carry_is_nibble_carry[where v = 1 and s = "set_A 0x0F (machine_static daa_program)"
      and c = 1 and a = "0x0F"]
    half_carry_is_nibble_carry[where v = 1 and s = "set_A 0x0F (machine_static daa_program)"
      and c = 1 and a = "0x10"]
  by (simp add: macro_defs machine_static_def cpu_static_def nibble_carry_def nibble_borrow_def)

subsection \<open>Compare\<close>

text \<open>
  C6. For every state and operand v, CMP(v) leaves the accumulator unchanged and sets S,
  Z, H, P and C to the values SUB(v) sets from the same state; CMP(v) is SUB(v) with the
  accumulator put back.
\<close>

theorem cmp_matches_sub:
  "A_reg (CMP v s) = A_reg s \<and>
   S_FLAG (CMP v s) = S_FLAG (SUB v s) \<and>
   Z_FLAG (CMP v s) = Z_FLAG (SUB v s) \<and>
   H_FLAG (CMP v s) = H_FLAG (SUB v s) \<and>
   P_FLAG (CMP v s) = P_FLAG (SUB v s) \<and>
   C_FLAG (CMP v s) = C_FLAG (SUB v s) \<and>
   CMP v s = set_A (A_reg s) (SUB v s)"
  by (intro conjI CMP_flags CMP_eq_SUB)

subsection \<open>Parity\<close>

text \<open>
  C8. For every byte r, the parity computation returns 1 if r has an even number of set
  bits and 0 otherwise; so the P flag after ADD, ADC, SUB, SBB, CMP, ANA, ORA, XRA, INR
  and DCR is the even-parity predicate of the low 8 bits of the result.
\<close>

theorem parity_is_even_parity:
  "i8080_getParity (uint r) = of_bool (even_parity r) \<and>
   P_FLAG (ADD v s) = of_bool (even_parity (A_reg s + v)) \<and>
   P_FLAG (ADC v s) = of_bool (even_parity (A_reg s + v + C_FLAG s)) \<and>
   P_FLAG (SUB v s) = of_bool (even_parity (A_reg s - v)) \<and>
   P_FLAG (SBB v s) = of_bool (even_parity (A_reg s - v - C_FLAG s)) \<and>
   P_FLAG (CMP v s) = of_bool (even_parity (A_reg s - v)) \<and>
   P_FLAG (ANA v s) = of_bool (even_parity (A_reg s AND v)) \<and>
   P_FLAG (ORA v s) = of_bool (even_parity (A_reg s OR v)) \<and>
   P_FLAG (XRA v s) = of_bool (even_parity (A_reg s XOR v)) \<and>
   P_FLAG (snd (INR r s)) = of_bool (even_parity (r + 1)) \<and>
   P_FLAG (snd (DCR r s)) = of_bool (even_parity (r - 1)) \<and>
   A_reg (ADD v s) = A_reg s + v \<and> A_reg (ADC v s) = A_reg s + v + C_FLAG s \<and>
   A_reg (SUB v s) = A_reg s - v \<and> A_reg (SBB v s) = A_reg s - v - C_FLAG s \<and>
   A_reg (ANA v s) = (A_reg s AND v) \<and> A_reg (ORA v s) = (A_reg s OR v) \<and>
   A_reg (XRA v s) = (A_reg s XOR v) \<and> fst (INR r s) = r + 1 \<and> fst (DCR r s) = r - 1"
  by (simp add: getParity_even_parity parity_ADD parity_ADC parity_SUB parity_SBB parity_CMP parity_ANA parity_ORA parity_XRA
      parity_INR parity_DCR accumulator_after)

subsection \<open>Decimal adjust\<close>

text \<open>
  C7. From the state after init and a jump to 0, with MVI A,0x9B and DAA at addresses 0
  to 2, two steps yield A = 0x01, C = 1, H = 1, Z = 0, P = 0, S = 0 and cost 7 + 4 = 11
  cycles. In every state DAA is the algorithm of the specification: add and carry are
  computed from H, C and the nibbles of A, ADD(add) is performed, then C is overwritten
  with the carry computed before.
\<close>

theorem daa_scenario:
  assumes "RD_BYTE 0 s = 0x3E" and "RD_BYTE 1 s = 0x9B" and "RD_BYTE 2 s = 0x27"
  shows "(let s0 = i8080_jump 0 (i8080_init s);
              (c1, s1) = i8080_instruction s0;
              (c2, s2) = i8080_instruction s1
          in A_reg s2 = 0x01 \<and> C_FLAG s2 = 1 \<and> H_FLAG s2 = 1 \<and> Z_FLAG s2 = 0 \<and>
             P_FLAG s2 = 0 \<and> S_FLAG s2 = 0 \<and> c1 = 7 \<and> c2 = 4 \<and> c1 + c2 = 11) \<and>
         i8080_execute 0x27 t = (4, DAA_spec t)"
  using daa_run[OF assms] exec_daa[of t] by (rule conjI)

theorem daa_scenario_witness:
  "RD_BYTE 0 (machine_static daa_program) = 0x3E \<and>
   RD_BYTE 1 (machine_static daa_program) = 0x9B \<and>
   RD_BYTE 2 (machine_static daa_program) = 0x27 \<and>
   A_reg (snd (i8080_instruction (snd (i8080_instruction
      (i8080_jump 0 (i8080_init (machine_static daa_program))))))) = 0x01 \<and>
   C_FLAG (snd (i8080_instruction (snd (i8080_instruction
      (i8080_jump 0 (i8080_init (machine_static daa_program))))))) = 1 \<and>
   fst (i8080_instruction (i8080_jump 0 (i8080_init (machine_static daa_program)))) +
   fst (i8080_instruction (snd (i8080_instruction
      (i8080_jump 0 (i8080_init (machine_static daa_program)))))) = 11"
proof -
  have m: "RD_BYTE 0 (machine_static daa_program) = 0x3E"
    "RD_BYTE 1 (machine_static daa_program) = 0x9B"
    "RD_BYTE 2 (machine_static daa_program) = 0x27"
    by (simp_all add: RD_BYTE_def machine_static_def daa_program_def)
  from daa_scenario[OF m] m show ?thesis
    by (simp add: Let_def split_def)
qed

subsection \<open>Jump\<close>

text \<open>
  C9. For every integer argument addr, jump sets PC to addr mod 65536 and changes
  nothing else of the state.
\<close>

theorem jump_sets_pc:
  "uint (PC (i8080_jump addr s)) = addr mod 65536 \<and>
   i8080_pc (i8080_jump addr s) = addr mod 65536 \<and>
   i8080_jump addr s = s\<lparr>cpu := (cpu s)\<lparr>pc := PC (i8080_jump addr s)\<rparr>\<rparr>"
  using jump_pc[of addr s] by (simp add: i8080_pc_def)

subsection \<open>Complement accumulator\<close>

text \<open>
  C10. In every state whose next opcode is CMA (0x2F), a step replaces A by its bitwise
  complement and leaves the flags S, Z, H, P, C (the whole flag structure and the packed
  byte F), the registers B, C, D, E, H, L, SP, and IFF unchanged; PC advances by the
  one-byte opcode fetch only, memory is untouched, and the step costs 4 cycles.
\<close>

theorem cma_frame:
  assumes "RD_BYTE (PC s) s = 0x2F"
  shows "fst (i8080_instruction s) = 4 \<and>
    (let s' = snd (i8080_instruction s) in
      A_reg s' = NOT (A_reg s) \<and>
      S_FLAG s' = S_FLAG s \<and> Z_FLAG s' = Z_FLAG s \<and> H_FLAG s' = H_FLAG s \<and>
      P_FLAG s' = P_FLAG s \<and> C_FLAG s' = C_FLAG s \<and>
      f (cpu s') = f (cpu s) \<and> F_reg s' = F_reg s \<and>
      B_reg s' = B_reg s \<and> C_reg s' = C_reg s \<and> D_reg s' = D_reg s \<and> E_reg s' = E_reg s \<and>
      H_reg s' = H_reg s \<and> L_reg s' = L_reg s \<and> SP s' = SP s \<and> IFF s' = IFF s \<and>
      PC s' = PC s + 1 \<and> M s' = M s \<and> memory s' = memory s \<and>
      io_out s' = io_out s \<and> iff_out s' = iff_out s)"
  using assms by (simp add: i8080_instruction_def exec_cma Let_def) (simp add: macro_defs)

theorem cma_frame_witness:
  "RD_BYTE (PC (set_A 0x5A (machine_static cma_program))) (set_A 0x5A (machine_static cma_program)) = 0x2F \<and>
   fst (i8080_instruction (set_A 0x5A (machine_static cma_program))) = 4 \<and>
   A_reg (snd (i8080_instruction (set_A 0x5A (machine_static cma_program)))) = 0xA5 \<and>
   PC (snd (i8080_instruction (set_A 0x5A (machine_static cma_program)))) = 1"
proof -
  have m: "RD_BYTE (PC (set_A 0x5A (machine_static cma_program)))
      (set_A 0x5A (machine_static cma_program)) = 0x2F"
    by (simp add: RD_BYTE_def machine_static_def cpu_static_def cma_program_def macro_defs)
  from cma_frame[OF m] m show ?thesis
    by (simp add: Let_def macro_defs machine_static_def cpu_static_def)
qed

end
